theory Spec2Isabelle
  imports Main
begin

section \<open>Strings of the Go runtime\<close>

text \<open>
  A Go string is a sequence of bytes; \<^typ>\<open>string\<close> is a list of 8-bit characters, so a
  code point beyond ASCII is the several bytes of its UTF-8 encoding, as in Go.
\<close>

abbreviation nl :: char where "nl \<equiv> CHR 0x0A"
abbreviation dq :: char where "dq \<equiv> CHR 0x22"
abbreviation bs :: char where "bs \<equiv> CHR 0x5C"

text \<open>\<^verbatim>\<open>strings.HasPrefix\<close>, \<^verbatim>\<open>strings.HasSuffix\<close>, \<^verbatim>\<open>strings.Contains\<close>.\<close>

definition HasPrefix :: "string \<Rightarrow> string \<Rightarrow> bool" where
  "HasPrefix s p = (take (length p) s = p)"

definition HasSuffix :: "string \<Rightarrow> string \<Rightarrow> bool" where
  "HasSuffix s p = (length p \<le> length s \<and> drop (length s - length p) s = p)"

fun Contains :: "string \<Rightarrow> string \<Rightarrow> bool" where
  "Contains [] sub = (sub = [])"
| "Contains (c # cs) sub = (HasPrefix (c # cs) sub \<or> Contains cs sub)"

text \<open>
  \<^verbatim>\<open>strings.Split(s, "\n")\<close>: the pieces between the newlines, one more piece than there
  are newlines. \<^verbatim>\<open>strings.Join(xs, sep)\<close>.
\<close>

fun Split :: "string \<Rightarrow> string list" where
  "Split [] = [[]]"
| "Split (c # cs) =
     (case Split cs of
        [] \<Rightarrow> [[c]]
      | piece # pieces \<Rightarrow> if c = nl then [] # piece # pieces else (c # piece) # pieces)"

fun Join :: "string list \<Rightarrow> string \<Rightarrow> string" where
  "Join [] sep = []"
| "Join [x] sep = x"
| "Join (x # y # ys) sep = x @ sep @ Join (y # ys) sep"

text \<open>
  \<^verbatim>\<open>strings.Trim(s, cutset)\<close> for a cutset of ASCII characters: every leading and every
  trailing character of the cutset is removed, however many there are.
\<close>

definition Trim :: "string \<Rightarrow> string \<Rightarrow> string" where
  "Trim s cutset =
     rev (dropWhile (\<lambda>c. c \<in> set cutset) (rev (dropWhile (\<lambda>c. c \<in> set cutset) s)))"

text \<open>
  \<^verbatim>\<open>strings.TrimSpace\<close> removes the leading and trailing white space as Unicode defines
  it (\<^verbatim>\<open>unicode.IsSpace\<close>): the six ASCII characters tab, newline, vertical tab, form feed,
  carriage return and space, and the code points U+0085, U+00A0, U+1680, U+2000 to U+200A,
  U+2028, U+2029, U+202F, U+205F and U+3000, here in their UTF-8 encodings. A byte sequence
  that is not valid UTF-8 decodes to U+FFFD, which is not white space.
\<close>

definition spaceRunes :: "string list" where
  "spaceRunes =
     [[CHR 0x09], [CHR 0x0A], [CHR 0x0B], [CHR 0x0C], [CHR 0x0D], [CHR 0x20],
      [CHR 0xC2, CHR 0x85], [CHR 0xC2, CHR 0xA0],
      [CHR 0xE1, CHR 0x9A, CHR 0x80],
      [CHR 0xE2, CHR 0x80, CHR 0x80], [CHR 0xE2, CHR 0x80, CHR 0x81],
      [CHR 0xE2, CHR 0x80, CHR 0x82], [CHR 0xE2, CHR 0x80, CHR 0x83],
      [CHR 0xE2, CHR 0x80, CHR 0x84], [CHR 0xE2, CHR 0x80, CHR 0x85],
      [CHR 0xE2, CHR 0x80, CHR 0x86], [CHR 0xE2, CHR 0x80, CHR 0x87],
      [CHR 0xE2, CHR 0x80, CHR 0x88], [CHR 0xE2, CHR 0x80, CHR 0x89],
      [CHR 0xE2, CHR 0x80, CHR 0x8A],
      [CHR 0xE2, CHR 0x80, CHR 0xA8], [CHR 0xE2, CHR 0x80, CHR 0xA9],
      [CHR 0xE2, CHR 0x80, CHR 0xAF], [CHR 0xE2, CHR 0x81, CHR 0x9F],
      [CHR 0xE3, CHR 0x80, CHR 0x80]]"

text \<open>The number of bytes of the white-space rune at the start of the string, 0 if none.\<close>

definition spaceWidth :: "string \<Rightarrow> nat" where
  "spaceWidth s =
     (case List.find (\<lambda>r. HasPrefix s r) spaceRunes of None \<Rightarrow> 0 | Some r \<Rightarrow> length r)"

text \<open>The same at the end of the string.\<close>

definition spaceWidthEnd :: "string \<Rightarrow> nat" where
  "spaceWidthEnd s =
     (case List.find (\<lambda>r. HasSuffix s r) spaceRunes of None \<Rightarrow> 0 | Some r \<Rightarrow> length r)"

function TrimLeftSpace :: "string \<Rightarrow> string" where
  "TrimLeftSpace s =
     (if spaceWidth s = 0 \<or> s = [] then s else TrimLeftSpace (drop (spaceWidth s) s))"
  by pat_completeness auto
termination
  by (relation "measure length") auto

function TrimRightSpace :: "string \<Rightarrow> string" where
  "TrimRightSpace s =
     (if spaceWidthEnd s = 0 \<or> s = [] then s
      else TrimRightSpace (take (length s - spaceWidthEnd s) s))"
  by pat_completeness auto
termination
  by (relation "measure length") auto

definition TrimSpace :: "string \<Rightarrow> string" where
  "TrimSpace s = TrimRightSpace (TrimLeftSpace s)"

section \<open>The output cleaner\<close>

subsection \<open>The log-line pattern\<close>

text \<open>
  \<^verbatim>\<open>tgLogLevel = regexp.MustCompile(`.*time=\S+ level=\S+ prefix=\S+ binary=\S+ msg=.*`)\<close>

  The pattern between the two \<^verbatim>\<open>.*\<close> is a sequence of literals and \<^verbatim>\<open>\S+\<close> groups. The
  class \<^verbatim>\<open>\S\<close> is every character but tab, newline, form feed, carriage return and space.
  Each \<^verbatim>\<open>\S+\<close> is followed by a literal space, which \<^verbatim>\<open>\S\<close> excludes, so a group can only
  match the whole run of non-space characters in front of that space.
\<close>

datatype item = Lit string | NonSpacePlus

definition isPerlSpace :: "char \<Rightarrow> bool" where
  "isPerlSpace c = (c \<in> {CHR 0x09, CHR 0x0A, CHR 0x0C, CHR 0x0D, CHR 0x20})"

text \<open>Matching one item at the start of the input gives the rest of the input.\<close>

fun matchItem :: "item \<Rightarrow> string \<Rightarrow> string option" where
  "matchItem (Lit l) s = (if HasPrefix s l then Some (drop (length l) s) else None)"
| "matchItem NonSpacePlus s =
     (if takeWhile (\<lambda>c. \<not> isPerlSpace c) s = [] then None
      else Some (dropWhile (\<lambda>c. \<not> isPerlSpace c) s))"

fun matchItems :: "item list \<Rightarrow> string \<Rightarrow> string option" where
  "matchItems [] s = Some s"
| "matchItems (i # is) s =
     (case matchItem i s of None \<Rightarrow> None | Some r \<Rightarrow> matchItems is r)"

definition tgLogLevelCore :: "item list" where
  "tgLogLevelCore =
     [Lit ''time='', NonSpacePlus, Lit '' level='', NonSpacePlus, Lit '' prefix='',
      NonSpacePlus, Lit '' binary='', NonSpacePlus, Lit '' msg='']"

text \<open>The core matches somewhere in the line.\<close>

fun matchesSomewhere :: "item list \<Rightarrow> string \<Rightarrow> bool" where
  "matchesSomewhere is [] = (matchItems is [] \<noteq> None)"
| "matchesSomewhere is (c # cs) = (matchItems is (c # cs) \<noteq> None \<or> matchesSomewhere is cs)"

definition isLogLine :: "string \<Rightarrow> bool" where
  "isLogLine line = matchesSomewhere tgLogLevelCore line"

text \<open>
  \<^verbatim>\<open>tgLogLevel.ReplaceAllString(s, "")\<close>. Neither \<^verbatim>\<open>.\<close> nor \<^verbatim>\<open>\S\<close> nor a literal of the
  pattern matches a newline, so a match lies within one line. The leading \<^verbatim>\<open>.*\<close> lets the
  leftmost match start at the start of a line in which the core matches somewhere, and the
  trailing greedy \<^verbatim>\<open>.*\<close> takes the match to the end of that line. The next search starts at
  the newline, where nothing matches. So every line in which the core matches is replaced
  by the empty string, and every other line is kept.
\<close>

definition tgLogLevel_ReplaceAllString :: "string \<Rightarrow> string" where
  "tgLogLevel_ReplaceAllString s =
     Join (map (\<lambda>line. if isLogLine line then [] else line) (Split s)) [nl]"

subsection \<open>Filtering and cleaning\<close>

text \<open>
  The loop that \<^verbatim>\<open>cleanTerragruntOutput\<close> and \<^verbatim>\<open>cleanTerragruntJson\<close> share: each line is
  trimmed, and kept when the trimmed line is not empty and the line has no \<^verbatim>\<open>" msg="\<close>.
\<close>

fun filterLines :: "string list \<Rightarrow> string list" where
  "filterLines [] = []"
| "filterLines (line # lines) =
     (let trimmed = TrimSpace line in
      if trimmed \<noteq> [] \<and> \<not> Contains line '' msg='' then trimmed # filterLines lines
      else filterLines lines)"

datatype error =
    ProcessError string
  | ConfigError string
  | RegexCompileError string
  | WarningError string "string list"
  | JsonError string

definition cleanTerragruntOutput :: "string \<Rightarrow> string \<times> error option" where
  "cleanTerragruntOutput rawOutput =
     (let cleaned = tgLogLevel_ReplaceAllString rawOutput;
          lines = Split cleaned;
          result = filterLines lines
      in if length result = 0 then ([], None)
         else
           let finalOutput = TrimSpace (Join result [nl]) in
           if HasPrefix finalOutput ''{'' \<or> HasPrefix finalOutput ''['' then (finalOutput, None)
           else if HasPrefix finalOutput [dq] \<and> HasSuffix finalOutput [dq]
             then (Trim finalOutput [dq], None)
             else (finalOutput, None))"

text \<open>
  Output that is already clean: no line is a structured log line, no line is blank, the text
  has no \<^verbatim>\<open>" msg="\<close> substring and it is not wrapped in double quotes.
\<close>

definition alreadyClean :: "string \<Rightarrow> bool" where
  "alreadyClean s =
     (list_all (\<lambda>line. \<not> isLogLine line \<and> TrimSpace line \<noteq> []) (Split s)
      \<and> \<not> Contains s '' msg=''
      \<and> \<not> (HasPrefix s [dq] \<and> HasSuffix s [dq]))"

text \<open>No line of the text starts or ends with white space.\<close>

definition noOuterSpace :: "string \<Rightarrow> bool" where
  "noOuterSpace s = list_all (\<lambda>line. TrimSpace line = line) (Split s)"

section \<open>Options and errors\<close>

text \<open>
  Modelled from the spec: the declaration of the \<^verbatim>\<open>Options\<close> struct is missing from the
  sources; the fields are those of the data model of the specification that the functions
  below read (the logger and the delay between retries have no effect on a result and are
  left out; the retry count, an \<^verbatim>\<open>int\<close> in Go, is a natural number). A Go map is kept as
  the list of its entries (keys distinct) in the order in which a \<^verbatim>\<open>range\<close> loop visits
  them. Go does not fix that order: two loops over the same map may visit the entries in
  different orders, so a statement about a map has to hold for every order of the list.
\<close>

record options =
  TerragruntBinary :: string
  TerragruntDir :: string
  EnvVars :: "(string \<times> string) list"
  ExtraArgs :: "string list"
  RetryableTerraformErrors :: "(string \<times> string) list"
  MaxRetries :: nat
  WarningsAsErrors :: "(string \<times> string) list"

text \<open>
  The text of an error (\<^verbatim>\<open>err.Error()\<close>). The two errors of \<^verbatim>\<open>hasWarning\<close> are built by
  \<^verbatim>\<open>fmt.Errorf("cannot compile regex for warning detection: %w", err)\<close> and
  \<^verbatim>\<open>fmt.Errorf("warning(s) were found: %s:\n%s", errorMessage, strings.Join(matches, ""))\<close>.
\<close>

fun Error :: "error \<Rightarrow> string" where
  "Error (ProcessError m) = m"
| "Error (ConfigError m) = m"
| "Error (RegexCompileError e) = ''cannot compile regex for warning detection: '' @ e"
| "Error (WarningError errorMessage matches) =
     ''warning(s) were found: '' @ errorMessage @ '':'' @ [nl] @ Join matches []"
| "Error (JsonError m) = m"

section \<open>The warning classifier\<close>

text \<open>
  The package \<^verbatim>\<open>regexp\<close> of the Go library is a parameter: \<^verbatim>\<open>regexp.Compile\<close> gives the
  text of the compilation error or the compiled pattern, and a compiled pattern is seen
  through \<^verbatim>\<open>FindAllString(s, -1)\<close>, the list of its successive matches in \<^verbatim>\<open>s\<close>.
\<close>

type_synonym regex = "string \<Rightarrow> string list"
type_synonym compiler = "string \<Rightarrow> string + regex"

text \<open>\<^verbatim>\<open>fmt.Sprintf("\nWarning: %s[^\n]*\n", warningPattern)\<close>\<close>

definition regexPattern :: "string \<Rightarrow> string" where
  "regexPattern warningPattern =
     [nl] @ ''Warning: '' @ warningPattern @ ''[^'' @ [nl] @ '']*'' @ [nl]"

text \<open>The loop of \<^verbatim>\<open>hasWarning\<close> over the entries in the order of the visit.\<close>

fun hasWarningLoop :: "compiler \<Rightarrow> (string \<times> string) list \<Rightarrow> string \<Rightarrow> error option" where
  "hasWarningLoop Compile [] commandOutput = None"
| "hasWarningLoop Compile ((warningPattern, errorMessage) # rest) commandOutput =
     (case Compile (regexPattern warningPattern) of
        Inl err \<Rightarrow> Some (RegexCompileError err)
      | Inr compiledRegex \<Rightarrow>
          (let matches = compiledRegex commandOutput in
           if length matches = 0 then hasWarningLoop Compile rest commandOutput
           else Some (WarningError errorMessage matches)))"

definition hasWarning :: "compiler \<Rightarrow> options \<Rightarrow> string \<Rightarrow> error option" where
  "hasWarning Compile opts commandOutput =
     hasWarningLoop Compile (WarningsAsErrors opts) commandOutput"

text \<open>
  The matches of one warning pattern in the output (none when the pattern does not
  compile), and the entries that compile and have no match: the loop passes over them.
\<close>

definition warningMatches :: "compiler \<Rightarrow> string \<Rightarrow> string \<Rightarrow> string list" where
  "warningMatches Compile warningPattern commandOutput =
     (case Compile (regexPattern warningPattern) of
        Inl err \<Rightarrow> []
      | Inr compiledRegex \<Rightarrow> compiledRegex commandOutput)"

definition compileError :: "compiler \<Rightarrow> string \<Rightarrow> string option" where
  "compileError Compile warningPattern =
     (case Compile (regexPattern warningPattern) of
        Inl err \<Rightarrow> Some err
      | Inr compiledRegex \<Rightarrow> None)"

definition compiles :: "compiler \<Rightarrow> string \<Rightarrow> bool" where
  "compiles Compile warningPattern =
     (case Compile (regexPattern warningPattern) of Inl err \<Rightarrow> False | Inr compiledRegex \<Rightarrow> True)"

definition passedOver :: "compiler \<Rightarrow> string \<Rightarrow> (string \<times> string) list \<Rightarrow> bool" where
  "passedOver Compile commandOutput entries =
     list_all (\<lambda>(warningPattern, errorMessage).
        compiles Compile warningPattern
        \<and> warningMatches Compile warningPattern commandOutput = []) entries"

subsection \<open>A regular-expression library for the examples\<close>

text \<open>
  An instance of the parameter, for evaluating examples: the patterns made of literal
  characters and of the group \<^verbatim>\<open>[^\n]*\<close>, with at least one literal character. On these
  the matches are those of Go's \<^verbatim>\<open>regexp\<close> (leftmost match, the group greedy, successive
  matches not overlapping). Every other pattern is reported as a compilation error; of those
  the examples use only the unbalanced \<^verbatim>\<open>(\<close>, which Go rejects too.
\<close>

datatype atom = Chr char | NotNewlineStar

definition metaChars :: "char list" where
  "metaChars = ''.+*?()|[]{}^$'' @ [bs]"

function parseFragment :: "string \<Rightarrow> atom list option" where
  "parseFragment s =
     (if s = [] then Some []
      else if HasPrefix s (''[^'' @ [nl] @ '']*'')
        then map_option (\<lambda>atoms. NotNewlineStar # atoms) (parseFragment (drop 5 s))
      else if hd s \<in> set metaChars then None
      else map_option (\<lambda>atoms. Chr (hd s) # atoms) (parseFragment (tl s)))"
  by pat_completeness auto
termination
  by (relation "measure length") auto

text \<open>Matching at the start of the input gives the rest of the input after the match.\<close>

fun matchAtoms :: "atom list \<Rightarrow> string \<Rightarrow> string option" where
  "matchAtoms [] s = Some s"
| "matchAtoms (Chr c # atoms) [] = None"
| "matchAtoms (Chr c # atoms) (d # s) = (if c = d then matchAtoms atoms s else None)"
| "matchAtoms (NotNewlineStar # atoms) [] = matchAtoms atoms []"
| "matchAtoms (NotNewlineStar # atoms) (d # s) =
     (if d = nl then matchAtoms atoms (d # s)
      else (case matchAtoms (NotNewlineStar # atoms) s of
              Some rest \<Rightarrow> Some rest
            | None \<Rightarrow> matchAtoms atoms (d # s)))"

text \<open>
  The successive matches; \<open>skip\<close> counts the characters still inside the previous match.
\<close>

fun findAllFrom :: "atom list \<Rightarrow> nat \<Rightarrow> string \<Rightarrow> string list" where
  "findAllFrom atoms skip [] = []"
| "findAllFrom atoms skip (c # cs) =
     (if skip > 0 then findAllFrom atoms (skip - 1) cs
      else (case matchAtoms atoms (c # cs) of
              None \<Rightarrow> findAllFrom atoms 0 cs
            | Some rest \<Rightarrow>
                take (length (c # cs) - length rest) (c # cs)
                  # findAllFrom atoms (length (c # cs) - length rest - 1) cs))"

definition fragmentCompile :: compiler where
  "fragmentCompile pattern =
     (case parseFragment pattern of
        None \<Rightarrow> Inl ''error parsing regexp''
      | Some atoms \<Rightarrow>
          if list_ex (\<lambda>a. a \<noteq> NotNewlineStar) atoms then Inr (findAllFrom atoms 0)
          else Inl ''error parsing regexp'')"

subsection \<open>Example data\<close>

text \<open>The output of the scenario of the specification, and one with two kinds of warning.\<close>

definition deprecatedOutput :: string where
  "deprecatedOutput = [nl] @ ''Warning: Deprecated option X'' @ [nl]"

definition mixedOutput :: string where
  "mixedOutput =
     [nl] @ ''Warning: Deprecated option X'' @ [nl, nl] @ ''Warning: Experimental Y'' @ [nl]
       @ ''Warning: Deprecated Z'' @ [nl]"

definition exampleOptions :: options where
  "exampleOptions =
     \<lparr>TerragruntBinary = ''terragrunt'', TerragruntDir = ''live'', EnvVars = [],
      ExtraArgs = [], RetryableTerraformErrors = [], MaxRetries = 2, WarningsAsErrors = []\<rparr>"

section \<open>Commands and the process boundary\<close>

text \<open>\<^verbatim>\<open>shell.Command\<close>, with the fields that \<^verbatim>\<open>generateCommand\<close> sets, but for the logger.\<close>

record command =
  Command :: string
  Args :: "string list"
  WorkingDir :: string
  Env :: "(string \<times> string) list"

text \<open>
  Modelled from the spec: the package \<^verbatim>\<open>shell\<close> (\<^verbatim>\<open>RunCommandE\<close>, \<^verbatim>\<open>RunCommandAndGetOutputE\<close>)
  is missing from the sources. The specification describes it as the process boundary,
  which invokes the binary with an argument vector, a working directory and an environment
  and gives back the combined output and an error signal. The state of a run is the list of
  the commands executed so far; the external process is a parameter that answers a command,
  given that history, with its output and, on failure, the text of its error.
\<close>

type_synonym shell = "command list \<Rightarrow> command \<Rightarrow> string \<times> string option"

definition RunCommandAndGetOutputE ::
  "shell \<Rightarrow> command \<Rightarrow> command list \<Rightarrow> (string \<times> error option) \<times> command list" where
  "RunCommandAndGetOutputE sh cmd executed =
     ((fst (sh executed cmd), map_option ProcessError (snd (sh executed cmd))), executed @ [cmd])"

definition RunCommandE :: "shell \<Rightarrow> command \<Rightarrow> command list \<Rightarrow> error option \<times> command list" where
  "RunCommandE sh cmd executed =
     (map_option ProcessError (snd (sh executed cmd)), executed @ [cmd])"

text \<open>
  \<^verbatim>\<open>GetCommonOptions\<close> is missing from the sources and the specification does not describe
  it, so it is a parameter: from the options and the command arguments it gives the options
  to run with and the final arguments. \<^verbatim>\<open>hasWarning\<close> reads the warning patterns from the
  options of the caller, as the source does.
\<close>

type_synonym commonOptions = "options \<Rightarrow> string list \<Rightarrow> options \<times> string list"

definition generateCommand :: "options \<Rightarrow> string list \<Rightarrow> command" where
  "generateCommand terragruntOptions commandArgs =
     \<lparr>Command = TerragruntBinary terragruntOptions, Args = commandArgs,
      WorkingDir = TerragruntDir terragruntOptions, Env = EnvVars terragruntOptions\<rparr>"

text \<open>
  Modelled from the spec: \<^verbatim>\<open>validateOptions\<close> is missing from the sources. The
  specification: the binary path and the working directory must be non-empty before any command
  executes; a violation is a configuration error.
\<close>

definition validateOptions :: "options \<Rightarrow> error option" where
  "validateOptions opts =
     (if TerragruntBinary opts = [] then Some (ConfigError ''TerragruntBinary is required'')
      else if TerragruntDir opts = [] then Some (ConfigError ''TerragruntDir is required'')
      else None)"

section \<open>The retry loop\<close>

text \<open>
  Modelled from the spec: \<^verbatim>\<open>retry.DoWithRetryableErrorsE\<close> is missing from the sources.
  The specification: on failure the raw error text is matched against the retryable-error
  mapping; if any pattern matches, the call is retried, up to the configured maximum; if no
  pattern matches, the error is surfaced at once; exhausting the budget surfaces the last
  failure; with a maximum of 2 a retryable failure is attempted exactly 3 times. The delay
  between attempts has no effect on the result and is left out. A retryable pattern that
  does not compile matches nothing.
\<close>

definition isRetryable :: "compiler \<Rightarrow> (string \<times> string) list \<Rightarrow> string \<Rightarrow> bool" where
  "isRetryable Compile retryableErrors errorText =
     list_ex (\<lambda>(pattern, description).
        case Compile pattern of Inl err \<Rightarrow> False | Inr compiledRegex \<Rightarrow> compiledRegex errorText \<noteq> [])
       retryableErrors"

type_synonym action = "command list \<Rightarrow> (string \<times> error option) \<times> command list"

fun DoWithRetryableErrorsE ::
  "compiler \<Rightarrow> (string \<times> string) list \<Rightarrow> nat \<Rightarrow> action \<Rightarrow> action" where
  "DoWithRetryableErrorsE Compile retryableErrors 0 action executed = action executed"
| "DoWithRetryableErrorsE Compile retryableErrors (Suc maxRetries) action executed =
     (case action executed of
        ((output, None), executed') \<Rightarrow> ((output, None), executed')
      | ((output, Some err), executed') \<Rightarrow>
          if isRetryable Compile retryableErrors (Error err)
          then DoWithRetryableErrorsE Compile retryableErrors maxRetries action executed'
          else ((output, Some err), executed'))"

section \<open>The stack commands\<close>

definition StackCommandRun :: string where
  "StackCommandRun = ''run''"

text \<open>
  The function that both \<^verbatim>\<open>runTerragruntStackSubCommandE\<close> and
  \<^verbatim>\<open>runTerragruntStackOutputCommand\<close> hand to the retry loop: run the command; on success
  check the output for warnings that count as errors.
\<close>

definition runAndCheckWarnings :: "compiler \<Rightarrow> shell \<Rightarrow> options \<Rightarrow> command \<Rightarrow> action" where
  "runAndCheckWarnings Compile sh opts execCommand executed =
     (case RunCommandAndGetOutputE sh execCommand executed of
        ((output, Some err), executed') \<Rightarrow> ((output, Some err), executed')
      | ((output, None), executed') \<Rightarrow>
          (case hasWarning Compile opts output of
             Some warningErr \<Rightarrow> ((output, Some warningErr), executed')
           | None \<Rightarrow> ((output, None), executed')))"

text \<open>The trial invocation that tests for the experimental flag.\<close>

definition experimentalTestCmd :: "options \<Rightarrow> command" where
  "experimentalTestCmd opts =
     \<lparr>Command = TerragruntBinary opts, Args = [''-experiment'', ''stack''],
      WorkingDir = [], Env = []\<rparr>"

text \<open>
  The command arguments of \<^verbatim>\<open>runTerragruntStackSubCommandE\<close> before \<^verbatim>\<open>GetCommonOptions\<close>,
  given whether the trial invocation succeeded.
\<close>

definition stackCommandArgs :: "bool \<Rightarrow> string \<Rightarrow> string list" where
  "stackCommandArgs supported subCommand =
     (let commandArgs = [''stack''];
          commandArgs = (if subCommand \<noteq> [] then commandArgs @ [subCommand] else commandArgs)
      in if supported then [''-experiment'', ''stack''] @ commandArgs else commandArgs)"

text \<open>The final arguments: the separator \<^verbatim>\<open>--\<close> for the subcommand \<^verbatim>\<open>run\<close> only.\<close>

definition stackFinalArgs :: "string list \<Rightarrow> string \<Rightarrow> string list \<Rightarrow> string list" where
  "stackFinalArgs finalArgs subCommand additionalArgs =
     (if subCommand = StackCommandRun then finalArgs @ (''--'' # additionalArgs)
      else finalArgs @ additionalArgs)"

definition runTerragruntStackSubCommandE ::
  "compiler \<Rightarrow> shell \<Rightarrow> commonOptions \<Rightarrow> options \<Rightarrow> string \<Rightarrow> string list \<Rightarrow> action" where
  "runTerragruntStackSubCommandE Compile sh GetCommonOptions opts subCommand additionalArgs executed =
     (let (probeErr, executed1) = RunCommandE sh (experimentalTestCmd opts) executed;
          commandArgs = stackCommandArgs (probeErr = None) subCommand;
          (terragruntOptions, finalArgs) = GetCommonOptions opts commandArgs;
          finalArgs = stackFinalArgs finalArgs subCommand additionalArgs;
          execCommand = generateCommand terragruntOptions finalArgs
      in DoWithRetryableErrorsE Compile (RetryableTerraformErrors terragruntOptions)
           (MaxRetries terragruntOptions)
           (runAndCheckWarnings Compile sh opts execCommand) executed1)"

definition runTerragruntStackCommandE ::
  "compiler \<Rightarrow> shell \<Rightarrow> commonOptions \<Rightarrow> options \<Rightarrow> string list \<Rightarrow> action" where
  "runTerragruntStackCommandE Compile sh GetCommonOptions opts additionalArgs =
     runTerragruntStackSubCommandE Compile sh GetCommonOptions opts StackCommandRun additionalArgs"

definition terragruntStackCommandE ::
  "compiler \<Rightarrow> shell \<Rightarrow> commonOptions \<Rightarrow> options \<Rightarrow> string list \<Rightarrow> action" where
  "terragruntStackCommandE Compile sh GetCommonOptions opts additionalArgs =
     runTerragruntStackSubCommandE Compile sh GetCommonOptions opts [] additionalArgs"

definition runTerragruntStackOutputCommand ::
  "compiler \<Rightarrow> shell \<Rightarrow> commonOptions \<Rightarrow> options \<Rightarrow> string list \<Rightarrow> action" where
  "runTerragruntStackOutputCommand Compile sh GetCommonOptions opts outputArgs executed =
     (case validateOptions opts of
        Some err \<Rightarrow> (([], Some err), executed)
      | None \<Rightarrow>
          (let commandArgs = [''stack'', ''output''] @ outputArgs;
               (terragruntOptions, finalArgs) = GetCommonOptions opts commandArgs;
               execCommand = generateCommand terragruntOptions finalArgs
           in DoWithRetryableErrorsE Compile (RetryableTerraformErrors terragruntOptions)
                (MaxRetries terragruntOptions)
                (runAndCheckWarnings Compile sh opts execCommand) executed))"

section \<open>The JSON path of the cleaner\<close>

text \<open>
  The package \<^verbatim>\<open>encoding/json\<close> of the Go library is a parameter: \<^verbatim>\<open>json.Unmarshal\<close> into
  an empty interface gives the text of the parse error or the value, and
  \<^verbatim>\<open>json.MarshalIndent(v, "", "  ")\<close> gives the text of an error or the serialized value.
\<close>

definition cleanTerragruntJson ::
  "(string \<Rightarrow> string + 'j) \<Rightarrow> ('j \<Rightarrow> string + string) \<Rightarrow> string \<Rightarrow> string \<times> error option" where
  "cleanTerragruntJson Unmarshal MarshalIndent input =
     (let cleaned = tgLogLevel_ReplaceAllString input;
          lines = Split cleaned;
          result = filterLines lines;
          ansiClean = Join result [nl]
      in case Unmarshal ansiClean of
           Inl err \<Rightarrow> ([], Some (JsonError err))
         | Inr jsonObj \<Rightarrow>
             (case MarshalIndent jsonObj of
                Inl err \<Rightarrow> ([], Some (JsonError err))
              | Inr normalized \<Rightarrow> (normalized, None)))"

section \<open>The output commands\<close>

definition TgOutputE ::
  "compiler \<Rightarrow> shell \<Rightarrow> commonOptions \<Rightarrow> options \<Rightarrow> string \<Rightarrow> action" where
  "TgOutputE Compile sh GetCommonOptions opts key executed =
     (let outputArgs = [''-no-color''];
          outputArgs = outputArgs @ ExtraArgs opts;
          outputArgs = (if key \<noteq> [] then outputArgs @ [key] else outputArgs)
      in case runTerragruntStackOutputCommand Compile sh GetCommonOptions opts outputArgs executed of
           ((rawOutput, Some err), executed') \<Rightarrow> (([], Some err), executed')
         | ((rawOutput, None), executed') \<Rightarrow>
             (case cleanTerragruntOutput rawOutput of
                (cleaned, Some err) \<Rightarrow> (([], Some err), executed')
              | (cleaned, None) \<Rightarrow> ((cleaned, None), executed')))"

definition TgOutputJsonE ::
  "(string \<Rightarrow> string + 'j) \<Rightarrow> ('j \<Rightarrow> string + string) \<Rightarrow>
   compiler \<Rightarrow> shell \<Rightarrow> commonOptions \<Rightarrow> options \<Rightarrow> string \<Rightarrow> action" where
  "TgOutputJsonE Unmarshal MarshalIndent Compile sh GetCommonOptions opts key executed =
     (let outputArgs = [''-no-color'', ''-json''];
          outputArgs = outputArgs @ ExtraArgs opts;
          outputArgs = (if key \<noteq> [] then outputArgs @ [key] else outputArgs)
      in case runTerragruntStackOutputCommand Compile sh GetCommonOptions opts outputArgs executed of
           ((rawOutput, Some err), executed') \<Rightarrow> (([], Some err), executed')
         | ((rawOutput, None), executed') \<Rightarrow>
             (cleanTerragruntJson Unmarshal MarshalIndent rawOutput, executed'))"

subsection \<open>Example data\<close>

text \<open>
  An instance of \<^verbatim>\<open>GetCommonOptions\<close> that changes nothing, a process that always succeeds
  with the output of the deprecation scenario, and a process that always fails.
\<close>

definition plainOptions :: commonOptions where
  "plainOptions opts args = (opts, args)"

definition warningShell :: shell where
  "warningShell executed cmd = (deprecatedOutput, None)"

definition failingShell :: shell where
  "failingShell executed cmd = ([], Some ''exec: no command'')"

subsection \<open>Inputs of the cleaner\<close>




text \<open>The key as the last output argument, when it is not empty.\<close>

definition keyArgs :: "string \<Rightarrow> string list" where
  "keyArgs key = (if key = [] then [] else [key])"

subsection \<open>A JSON library for the examples\<close>

text \<open>
  An instance of the two parameters, for evaluating examples: JSON documents whose strings
  are made of printable ASCII characters other than the double quote, the backslash and
  \<^verbatim>\<open><\<close>, \<^verbatim>\<open>>\<close>, \<^verbatim>\<open>&\<close> (so that no escape is read or written) and whose numbers are
  non-negative integers below \<open>2\<^sup>5\<^sup>3\<close> (so that the \<^verbatim>\<open>float64\<close> of Go holds them exactly).
  Every other text is reported as an error. An object is decoded to a Go map: the members
  are kept sorted by key, a later member replacing an earlier one with the same key, so that
  equality of values is Go's deep equality; \<^verbatim>\<open>MarshalIndent\<close> writes the members in that order.
\<close>

datatype json =
    JNull
  | JBool bool
  | JNumber int
  | JString string
  | JArray "json list"
  | JObject "(string \<times> json) list"

definition isWs :: "char \<Rightarrow> bool" where
  "isWs c = (c \<in> {CHR 0x20, CHR 0x09, CHR 0x0A, CHR 0x0D})"

definition isPlainChar :: "char \<Rightarrow> bool" where
  "isPlainChar c =
     (32 \<le> (of_char c :: int) \<and> (of_char c :: int) \<le> 126 \<and> c \<notin> set ([dq, bs] @ ''<>&''))"

definition isDigit :: "char \<Rightarrow> bool" where
  "isDigit c = (48 \<le> (of_char c :: int) \<and> (of_char c :: int) \<le> 57)"

text \<open>After the opening quote: the content of the string and the rest after the closing quote.\<close>

fun parseString :: "string \<Rightarrow> (string \<times> string) option" where
  "parseString [] = None"
| "parseString (c # cs) =
     (if c = dq then Some ([], cs)
      else if isPlainChar c
        then (case parseString cs of None \<Rightarrow> None | Some (x, rest) \<Rightarrow> Some (c # x, rest))
      else None)"

definition parseNumber :: "string \<Rightarrow> (json \<times> string) option" where
  "parseNumber s =
     (let digits = takeWhile isDigit s;
          rest = dropWhile isDigit s;
          n = foldl (\<lambda>a d. 10 * a + ((of_char d :: int) - 48)) 0 digits
      in if digits = [] \<or> (length digits > 1 \<and> hd digits = CHR ''0'')
            \<or> (rest \<noteq> [] \<and> hd rest \<in> set ''.eE'') \<or> n \<ge> 2 ^ 53
         then None else Some (JNumber n, rest))"

text \<open>The next character after white space, to be the expected one.\<close>

definition expect :: "char \<Rightarrow> string \<Rightarrow> string option" where
  "expect c s =
     (case dropWhile isWs s of [] \<Rightarrow> None | d # rest \<Rightarrow> if d = c then Some rest else None)"

fun upsert :: "string \<Rightarrow> json \<Rightarrow> (string \<times> json) list \<Rightarrow> (string \<times> json) list" where
  "upsert k v [] = [(k, v)]"
| "upsert k v ((k', v') # ms) =
     (if k = k' then (k, v) # ms
      else if lexordp (\<lambda>a b. (of_char a :: int) < of_char b) k k' then (k, v) # (k', v') # ms
      else (k', v') # upsert k v ms)"

definition goMap :: "(string \<times> json) list \<Rightarrow> (string \<times> json) list" where
  "goMap ms = foldl (\<lambda>acc (k, v). upsert k v acc) [] ms"

text \<open>
  Recursive descent; the first argument bounds the depth of the recursion, and the length
  of the text is enough.
\<close>

fun parseValue :: "nat \<Rightarrow> string \<Rightarrow> (json \<times> string) option"
  and parseElements :: "nat \<Rightarrow> string \<Rightarrow> (json list \<times> string) option"
  and parseMembers :: "nat \<Rightarrow> string \<Rightarrow> ((string \<times> json) list \<times> string) option" where
  "parseValue 0 s = None"
| "parseValue (Suc n) s =
     (let t = dropWhile isWs s in
      if t = [] then None
      else if hd t = CHR ''{'' then
        (case expect CHR ''}'' (tl t) of
           Some rest \<Rightarrow> Some (JObject [], rest)
         | None \<Rightarrow>
             (case parseMembers n (tl t) of
                None \<Rightarrow> None
              | Some (ms, rest) \<Rightarrow> Some (JObject (goMap ms), rest)))
      else if hd t = CHR ''['' then
        (case expect CHR '']'' (tl t) of
           Some rest \<Rightarrow> Some (JArray [], rest)
         | None \<Rightarrow>
             (case parseElements n (tl t) of
                None \<Rightarrow> None
              | Some (vs, rest) \<Rightarrow> Some (JArray vs, rest)))
      else if hd t = dq then
        (case parseString (tl t) of None \<Rightarrow> None | Some (x, rest) \<Rightarrow> Some (JString x, rest))
      else if HasPrefix t ''null'' then Some (JNull, drop 4 t)
      else if HasPrefix t ''true'' then Some (JBool True, drop 4 t)
      else if HasPrefix t ''false'' then Some (JBool False, drop 5 t)
      else parseNumber t)"
| "parseElements 0 s = None"
| "parseElements (Suc n) s =
     (case parseValue n s of
        None \<Rightarrow> None
      | Some (v, rest) \<Rightarrow>
          (case expect CHR '','' rest of
             Some rest' \<Rightarrow>
               (case parseElements n rest' of
                  None \<Rightarrow> None
                | Some (vs, rest'') \<Rightarrow> Some (v # vs, rest''))
           | None \<Rightarrow>
               (case expect CHR '']'' rest of
                  Some rest' \<Rightarrow> Some ([v], rest')
                | None \<Rightarrow> None)))"
| "parseMembers 0 s = None"
| "parseMembers (Suc n) s =
     (case expect dq s of
        None \<Rightarrow> None
      | Some afterQuote \<Rightarrow>
          (case parseString afterQuote of
             None \<Rightarrow> None
           | Some (k, afterKey) \<Rightarrow>
               (case expect CHR '':'' afterKey of
                  None \<Rightarrow> None
                | Some afterColon \<Rightarrow>
                    (case parseValue n afterColon of
                       None \<Rightarrow> None
                     | Some (v, rest) \<Rightarrow>
                         (case expect CHR '','' rest of
                            Some rest' \<Rightarrow>
                              (case parseMembers n rest' of
                                 None \<Rightarrow> None
                               | Some (ms, rest'') \<Rightarrow> Some ((k, v) # ms, rest''))
                          | None \<Rightarrow>
                              (case expect CHR ''}'' rest of
                                 Some rest' \<Rightarrow> Some ([(k, v)], rest')
                               | None \<Rightarrow> None))))))"

definition fragmentUnmarshal :: "string \<Rightarrow> string + json" where
  "fragmentUnmarshal s =
     (if dropWhile isWs s = [] then Inl ''unexpected end of JSON input''
      else (case parseValue (Suc (length s)) s of
              None \<Rightarrow> Inl ''invalid character''
            | Some (v, rest) \<Rightarrow>
                if dropWhile isWs rest = [] then Inr v
                else Inl ''invalid character after top-level value''))"

function showNat :: "int \<Rightarrow> string" where
  "showNat n =
     (if n < 10 then [char_of (48 + n)] else showNat (n div 10) @ [char_of (48 + n mod 10)])"
  by pat_completeness auto
termination
  by (relation "measure nat") auto

definition indent :: "nat \<Rightarrow> string" where
  "indent depth = concat (replicate depth ''  '')"

fun marshal :: "nat \<Rightarrow> json \<Rightarrow> string" where
  "marshal depth JNull = ''null''"
| "marshal depth (JBool b) = (if b then ''true'' else ''false'')"
| "marshal depth (JNumber n) = showNat n"
| "marshal depth (JString x) = [dq] @ x @ [dq]"
| "marshal depth (JArray vs) =
     (if vs = [] then ''[]''
      else ''['' @ [nl]
        @ Join (map (\<lambda>v. indent (Suc depth) @ marshal (Suc depth) v) vs) ('','' @ [nl])
        @ [nl] @ indent depth @ '']'')"
| "marshal depth (JObject ms) =
     (if ms = [] then ''{}''
      else ''{'' @ [nl]
        @ Join (map (\<lambda>(k, v). indent (Suc depth) @ [dq] @ k @ [dq] @ '': '' @ marshal (Suc depth) v)
                 ms) ('','' @ [nl])
        @ [nl] @ indent depth @ ''}'')"

definition fragmentMarshalIndent :: "json \<Rightarrow> string + string" where
  "fragmentMarshalIndent v = Inr (marshal 0 v)"

subsection \<open>Example data for the cleaner and the commands\<close>





text \<open>Options with every field empty, as the Go literal \<^verbatim>\<open>&Options{}\<close>.\<close>

definition emptyOptions :: options where
  "emptyOptions =
     \<lparr>TerragruntBinary = [], TerragruntDir = [], EnvVars = [],
      ExtraArgs = [], RetryableTerraformErrors = [], MaxRetries = 0, WarningsAsErrors = []\<rparr>"

text \<open>
  Options that count the deprecation warning as an error, without and with a retryable
  pattern that matches the text of that error.
\<close>

definition deprecationOptions :: options where
  "deprecationOptions =
     exampleOptions\<lparr>WarningsAsErrors := [(''Deprecat'', ''deprecated features used'')],
       RetryableTerraformErrors := [(''timeout'', ''transient network error'')]\<rparr>"

definition retryingOptions :: options where
  "retryingOptions =
     exampleOptions\<lparr>WarningsAsErrors := [(''Deprecat'', ''deprecated features used'')],
       RetryableTerraformErrors := [(''deprecated features used'', ''retry on deprecation'')]\<rparr>"

section \<open>Lemmas about the string functions\<close>

lemma Split_not_Nil: "Split s \<noteq> []"
  by (cases s) (simp_all split: list.split)

lemma Join_Split: "Join (Split s) [nl] = s"
proof (induction s)
  case Nil
  show ?case by simp
next
  case (Cons c cs)
  obtain p ps where sp: "Split cs = p # ps"
    using Split_not_Nil [of cs] by (cases "Split cs") auto
  show ?case
    using Cons sp by (cases ps) auto
qed

lemma Split_no_nl: "l \<in> set (Split s) \<Longrightarrow> nl \<notin> set l"
proof (induction s arbitrary: l)
  case Nil
  then show ?case by simp
next
  case (Cons c cs)
  obtain p ps where sp: "Split cs = p # ps"
    using Split_not_Nil [of cs] by (cases "Split cs") auto
  have ih: "\<And>x. x \<in> set (p # ps) \<Longrightarrow> nl \<notin> set x" using Cons.IH sp by simp
  show ?case
  proof (cases "c = nl")
    case True
    then have "l = [] \<or> l \<in> set (p # ps)" using Cons.prems sp by auto
    then show ?thesis using ih by auto
  next
    case False
    then have "l = c # p \<or> l \<in> set ps" using Cons.prems sp by auto
    then show ?thesis using ih False by auto
  qed
qed

lemma Contains_iff: "Contains s sub \<longleftrightarrow> (\<exists>a b. s = a @ sub @ b)"
proof (induction s)
  case Nil
  show ?case by auto
next
  case (Cons c cs)
  have pre: "HasPrefix (c # cs) sub \<longleftrightarrow> (\<exists>b. c # cs = sub @ b)"
    unfolding HasPrefix_def
    by (metis append_eq_conv_conj)
  show ?case
  proof
    assume "Contains (c # cs) sub"
    then consider "HasPrefix (c # cs) sub" | "Contains cs sub" by auto
    then show "\<exists>a b. c # cs = a @ sub @ b"
    proof cases
      case 1
      then obtain b where "c # cs = sub @ b" using pre by blast
      then have "c # cs = [] @ sub @ b" by simp
      then show ?thesis by blast
    next
      case 2
      then obtain a b where "cs = a @ sub @ b" using Cons by blast
      then have "c # cs = (c # a) @ sub @ b" by simp
      then show ?thesis by blast
    qed
  next
    assume "\<exists>a b. c # cs = a @ sub @ b"
    then obtain a b where ab: "c # cs = a @ sub @ b" by blast
    show "Contains (c # cs) sub"
    proof (cases a)
      case Nil
      then have "HasPrefix (c # cs) sub" using ab pre by auto
      then show ?thesis by simp
    next
      case (Cons x xs)
      then have "cs = xs @ sub @ b" using ab by simp
      then have "Contains cs sub" using Cons.IH by blast
      then show ?thesis by simp
    qed
  qed
qed

lemma Join_infix: "l \<in> set ls \<Longrightarrow> \<exists>a b. Join ls sep = a @ l @ b"
proof (induction ls sep rule: Join.induct)
  case (1 sep)
  then show ?case by simp
next
  case (2 x sep)
  then have "Join [x] sep = [] @ l @ []" by simp
  then show ?case by blast
next
  case (3 x y ys sep)
  show ?case
  proof (cases "l = x")
    case True
    then have "Join (x # y # ys) sep = [] @ l @ (sep @ Join (y # ys) sep)" by simp
    then show ?thesis by blast
  next
    case False
    then have "l \<in> set (y # ys)" using 3 by auto
    then obtain a b where "Join (y # ys) sep = a @ l @ b" using 3 by blast
    then have "Join (x # y # ys) sep = (x @ sep @ a) @ l @ b" by simp
    then show ?thesis by blast
  qed
qed

lemma line_infix: "l \<in> set (Split s) \<Longrightarrow> \<exists>a b. s = a @ l @ b"
  using Join_infix [of l "Split s" "[nl]"] Join_Split [of s] by simp

lemma Contains_line:
  assumes "l \<in> set (Split s)" and "Contains l sub"
  shows "Contains s sub"
proof -
  obtain a b where 1: "s = a @ l @ b"
    using line_infix [OF assms(1)] by blast
  obtain c d where 2: "l = c @ sub @ d"
    using assms(2) unfolding Contains_iff by blast
  have "s = (a @ c) @ sub @ (d @ b)" using 1 2 by simp
  then show ?thesis unfolding Contains_iff by blast
qed

lemma filterLines_id:
  "\<forall>l\<in>set ls. TrimSpace l = l \<and> l \<noteq> [] \<and> \<not> Contains l '' msg='' \<Longrightarrow> filterLines ls = ls"
proof (induction ls)
  case Nil
  show ?case by simp
next
  case (Cons l ls)
  then have "TrimSpace l = l" "l \<noteq> []" "\<not> Contains l '' msg=''" "filterLines ls = ls"
    by simp_all
  then show ?case by (simp add: Let_def del: Contains.simps)
qed


declare TrimLeftSpace.simps [simp del] TrimRightSpace.simps [simp del]

lemma spaceRunes_nl: "r \<in> set spaceRunes \<Longrightarrow> nl \<in> set r \<Longrightarrow> r = [nl]"
  by (auto simp: spaceRunes_def)

lemma spaceRunes_ne: "r \<in> set spaceRunes \<Longrightarrow> r \<noteq> []"
  by (auto simp: spaceRunes_def)

lemma find_width_0:
  "(case List.find P spaceRunes of None \<Rightarrow> 0 | Some r \<Rightarrow> length r) = (0::nat)
     \<longleftrightarrow> (\<forall>r\<in>set spaceRunes. \<not> P r)"
proof (cases "List.find P spaceRunes")
  case None
  have "\<forall>r\<in>set spaceRunes. \<not> P r" using None by (simp add: find_None_iff)
  then show ?thesis by (simp add: None)
next
  case (Some r)
  then have "r \<in> set spaceRunes" and "P r"
    unfolding find_Some_iff by (metis nth_mem)+
  then show ?thesis using Some spaceRunes_ne [of r] by auto
qed

lemma spaceWidth_0: "spaceWidth s = 0 \<longleftrightarrow> (\<forall>r\<in>set spaceRunes. \<not> HasPrefix s r)"
  unfolding spaceWidth_def by (rule find_width_0)

lemma spaceWidthEnd_0: "spaceWidthEnd s = 0 \<longleftrightarrow> (\<forall>r\<in>set spaceRunes. \<not> HasSuffix s r)"
  unfolding spaceWidthEnd_def by (rule find_width_0)

lemma TrimLeftSpace_length: "length (TrimLeftSpace s) \<le> length s"
proof (induction s rule: TrimLeftSpace.induct)
  case (1 s)
  show ?case
  proof (cases "spaceWidth s = 0 \<or> s = []")
    case True
    then show ?thesis by (subst TrimLeftSpace.simps) simp
  next
    case False
    then have "length (TrimLeftSpace (drop (spaceWidth s) s)) \<le> length (drop (spaceWidth s) s)"
      using 1 by simp
    moreover have "TrimLeftSpace s = TrimLeftSpace (drop (spaceWidth s) s)"
      using False by (subst TrimLeftSpace.simps) simp
    ultimately show ?thesis by simp
  qed
qed

lemma TrimRightSpace_length: "length (TrimRightSpace s) \<le> length s"
proof (induction s rule: TrimRightSpace.induct)
  case (1 s)
  show ?case
  proof (cases "spaceWidthEnd s = 0 \<or> s = []")
    case True
    then show ?thesis by (subst TrimRightSpace.simps) simp
  next
    case False
    then have "length (TrimRightSpace (take (length s - spaceWidthEnd s) s))
        \<le> length (take (length s - spaceWidthEnd s) s)"
      using 1 by simp
    moreover have "TrimRightSpace s = TrimRightSpace (take (length s - spaceWidthEnd s) s)"
      using False by (subst TrimRightSpace.simps) simp
    ultimately show ?thesis by simp
  qed
qed

lemma TrimLeftSpace_shorter:
  assumes "spaceWidth s \<noteq> 0" and "s \<noteq> []"
  shows "length (TrimLeftSpace s) < length s"
proof -
  have "TrimLeftSpace s = TrimLeftSpace (drop (spaceWidth s) s)"
    using assms by (subst TrimLeftSpace.simps) simp
  moreover have "length (TrimLeftSpace (drop (spaceWidth s) s)) \<le> length (drop (spaceWidth s) s)"
    by (rule TrimLeftSpace_length)
  moreover have "length (drop (spaceWidth s) s) < length s"
    using assms by simp
  ultimately show ?thesis by simp
qed

lemma TrimRightSpace_shorter:
  assumes "spaceWidthEnd s \<noteq> 0" and "s \<noteq> []"
  shows "length (TrimRightSpace s) < length s"
proof -
  have "TrimRightSpace s = TrimRightSpace (take (length s - spaceWidthEnd s) s)"
    using assms by (subst TrimRightSpace.simps) simp
  moreover have "length (TrimRightSpace (take (length s - spaceWidthEnd s) s))
      \<le> length (take (length s - spaceWidthEnd s) s)"
    by (rule TrimRightSpace_length)
  moreover have "length (take (length s - spaceWidthEnd s) s) < length s"
    using assms by simp
  ultimately show ?thesis by simp
qed

lemma TrimSpace_fixed:
  assumes "TrimSpace l = l" and "l \<noteq> []"
  shows "spaceWidth l = 0 \<and> spaceWidthEnd l = 0"
proof -
  have len: "length (TrimRightSpace (TrimLeftSpace l)) = length l"
    using assms(1) by (simp add: TrimSpace_def)
  have le: "length (TrimRightSpace (TrimLeftSpace l)) \<le> length (TrimLeftSpace l)"
    by (rule TrimRightSpace_length)
  have w: "spaceWidth l = 0"
  proof (rule ccontr)
    assume "spaceWidth l \<noteq> 0"
    then have "length (TrimLeftSpace l) < length l"
      using assms(2) by (rule TrimLeftSpace_shorter)
    then show False using len le by simp
  qed
  then have tl: "TrimLeftSpace l = l" by (subst TrimLeftSpace.simps) simp
  have "spaceWidthEnd l = 0"
  proof (rule ccontr)
    assume "spaceWidthEnd l \<noteq> 0"
    then have "length (TrimRightSpace l) < length l"
      using assms(2) by (rule TrimRightSpace_shorter)
    then show False using len tl by simp
  qed
  then show ?thesis using w by simp
qed

lemma TrimSpace_id: "spaceWidth s = 0 \<Longrightarrow> spaceWidthEnd s = 0 \<Longrightarrow> TrimSpace s = s"
  unfolding TrimSpace_def
  by (subst TrimLeftSpace.simps, simp, subst TrimRightSpace.simps, simp)

lemma HasPrefix_iff: "HasPrefix s p \<longleftrightarrow> (\<exists>b. s = p @ b)"
  unfolding HasPrefix_def by (metis append_eq_conv_conj)

lemma HasSuffix_iff: "HasSuffix s p \<longleftrightarrow> (\<exists>a. s = a @ p)"
proof
  assume "HasSuffix s p"
  then have "s = take (length s - length p) s @ p"
    unfolding HasSuffix_def by (metis append_take_drop_id)
  then show "\<exists>a. s = a @ p" by blast
next
  assume "\<exists>a. s = a @ p"
  then show "HasSuffix s p" unfolding HasSuffix_def by auto
qed

lemma no_space_prefix_line:
  assumes "r \<in> set spaceRunes" and "\<not> HasPrefix l r" and "l \<noteq> []"
  shows "\<not> HasPrefix (l @ nl # t) r"
proof
  assume "HasPrefix (l @ nl # t) r"
  then obtain b where eq: "l @ nl # t = r @ b" unfolding HasPrefix_iff by blast
  then obtain us where "(l = r @ us \<and> us @ nl # t = b) \<or> (l @ us = r \<and> nl # t = us @ b)"
    unfolding append_eq_append_conv2 by blast
  then show False
  proof
    assume "l = r @ us \<and> us @ nl # t = b"
    then show False using assms(2) unfolding HasPrefix_iff by blast
  next
    assume c: "l @ us = r \<and> nl # t = us @ b"
    show False
    proof (cases us)
      case Nil
      then have "l = r @ []" using c by simp
      then show False using assms(2) unfolding HasPrefix_iff by blast
    next
      case (Cons u us')
      then have "u = nl" using c by simp
      then have "r = l @ nl # us'" using c Cons by simp
      then have "nl \<in> set r" by simp
      then have "r = [nl]" using assms(1) by (rule spaceRunes_nl [rotated])
      then have "length (l @ us) = 1" using c by simp
      moreover have "length l \<ge> 1" using assms(3) by (cases l) simp_all
      moreover have "length us \<ge> 1" using Cons by simp
      ultimately show False by simp
    qed
  qed
qed

lemma no_space_suffix_line:
  assumes "r \<in> set spaceRunes" and "\<not> HasSuffix l r" and "l \<noteq> []"
  shows "\<not> HasSuffix (t @ nl # l) r"
proof
  assume "HasSuffix (t @ nl # l) r"
  then obtain a where eq: "(t @ [nl]) @ l = a @ r" unfolding HasSuffix_iff by auto
  then obtain us where "(t @ [nl] = a @ us \<and> us @ l = r) \<or> ((t @ [nl]) @ us = a \<and> l = us @ r)"
    unfolding append_eq_append_conv2 by blast
  then show False
  proof
    assume c: "t @ [nl] = a @ us \<and> us @ l = r"
    show False
    proof (cases "us = []")
      case True
      then have "l = [] @ r" using c by simp
      then show False using assms(2) unfolding HasSuffix_iff by blast
    next
      case False
      then have "last us = nl" using c by (metis last_appendR last_snoc)
      then have "nl \<in> set us" using False by (metis last_in_set)
      then have "nl \<in> set r" using c by auto
      then have "r = [nl]" using assms(1) by (rule spaceRunes_nl [rotated])
      then have "length (us @ l) = 1" using c by simp
      moreover have "length l \<ge> 1" using assms(3) by (cases l) simp_all
      moreover have "length us \<ge> 1" using False by (cases us) simp_all
      ultimately show False by simp
    qed
  next
    assume "(t @ [nl]) @ us = a \<and> l = us @ r"
    then show False using assms(2) unfolding HasSuffix_iff by blast
  qed
qed

lemma Join_first: "Join (l # ls) sep = l \<or> (\<exists>t. Join (l # ls) sep = l @ sep @ t)"
  by (cases ls) auto

lemma Join_last: "ls \<noteq> [] \<Longrightarrow> Join ls sep = last ls \<or> (\<exists>t. Join ls sep = t @ sep @ last ls)"
proof (induction ls sep rule: Join.induct)
  case (1 sep)
  then show ?case by simp
next
  case (2 x sep)
  then show ?case by simp
next
  case (3 x y ys sep)
  then have "Join (y # ys) sep = last (y # ys) \<or> (\<exists>t. Join (y # ys) sep = t @ sep @ last (y # ys))"
    by simp
  then show ?case
  proof
    assume "Join (y # ys) sep = last (y # ys)"
    then have "Join (x # y # ys) sep = x @ sep @ last (x # y # ys)" by simp
    then show ?thesis by blast
  next
    assume "\<exists>t. Join (y # ys) sep = t @ sep @ last (y # ys)"
    then obtain t where "Join (y # ys) sep = t @ sep @ last (y # ys)" by blast
    then have "Join (x # y # ys) sep = (x @ sep @ t) @ sep @ last (x # y # ys)" by simp
    then show ?thesis by blast
  qed
qed

lemma TrimSpace_lines:
  assumes "\<forall>l\<in>set (Split s). TrimSpace l = l \<and> l \<noteq> []"
  shows "TrimSpace s = s"
proof -
  obtain l ls where sp: "Split s = l # ls"
    using Split_not_Nil [of s] by (cases "Split s") auto
  have fl: "spaceWidth l = 0" and f2: "l \<noteq> []"
    using assms sp TrimSpace_fixed [of l] by auto
  have la: "last (Split s) \<in> set (Split s)" using Split_not_Nil by simp
  then have ll: "spaceWidthEnd (last (Split s)) = 0" and l2: "last (Split s) \<noteq> []"
    using assms TrimSpace_fixed [of "last (Split s)"] by auto
  have "s = l \<or> (\<exists>t. s = l @ [nl] @ t)"
    using Join_first [of l ls "[nl]"] Join_Split [of s] sp by simp
  then have p: "spaceWidth s = 0"
  proof
    assume "s = l" then show ?thesis using fl by simp
  next
    assume "\<exists>t. s = l @ [nl] @ t"
    then obtain t where "s = l @ nl # t" by auto
    then show ?thesis using fl f2 no_space_prefix_line unfolding spaceWidth_0 by blast
  qed
  have "s = last (Split s) \<or> (\<exists>t. s = t @ [nl] @ last (Split s))"
    using Join_last [of "Split s" "[nl]"] Join_Split [of s] Split_not_Nil [of s] by simp
  then have q: "spaceWidthEnd s = 0"
  proof
    assume "s = last (Split s)" then show ?thesis using ll by simp
  next
    assume "\<exists>t. s = t @ [nl] @ last (Split s)"
    then obtain t where "s = t @ nl # last (Split s)" by auto
    then show ?thesis using ll l2 no_space_suffix_line [of _ "last (Split s)" t]
      unfolding spaceWidthEnd_0 by metis
  qed
  show ?thesis using p q by (rule TrimSpace_id)
qed

section \<open>Lemmas about the warning classifier\<close>

lemma Join_empty_sep: "Join xs [] = concat xs"
  by (induction xs "[] :: string" rule: Join.induct) simp_all

lemma hasWarningLoop_passedOver:
  "passedOver Compile out before \<Longrightarrow>
   hasWarningLoop Compile (before @ rest) out = hasWarningLoop Compile rest out"
proof (induction before)
  case Nil
  show ?case by simp
next
  case (Cons e before)
  obtain q m where e: "e = (q, m)" by (cases e)
  from Cons.prems have c: "compiles Compile q" and w: "warningMatches Compile q out = []"
    and r: "passedOver Compile out before"
    unfolding passedOver_def e by simp_all
  from c obtain g where g: "Compile (regexPattern q) = Inr g"
    unfolding compiles_def by (cases "Compile (regexPattern q)") simp_all
  then have "g out = []" using w unfolding warningMatches_def by simp
  then show ?case using g e Cons.IH [OF r] by simp
qed

lemma hasWarningLoop_match:
  assumes "compiles Compile p" and "warningMatches Compile p out \<noteq> []"
  shows "hasWarningLoop Compile ((p, msg) # after) out
           = Some (WarningError msg (warningMatches Compile p out))"
proof -
  from assms(1) obtain g where g: "Compile (regexPattern p) = Inr g"
    unfolding compiles_def by (cases "Compile (regexPattern p)") simp_all
  then show ?thesis using assms(2) unfolding warningMatches_def by simp
qed

lemma Contains_concat: "m \<in> set ms \<Longrightarrow> Contains (pre @ concat ms) m"
proof -
  assume "m \<in> set ms"
  then obtain xs ys where "ms = xs @ m # ys" by (meson split_list)
  then have "pre @ concat ms = (pre @ concat xs) @ m @ concat ys" by simp
  then show ?thesis unfolding Contains_iff by blast
qed

lemma passedOver_agree:
  "list_all (\<lambda>q. Compile' (regexPattern q) = Compile (regexPattern q)) (map fst entries) \<Longrightarrow>
   passedOver Compile out entries \<Longrightarrow> passedOver Compile' out entries"
proof (induction entries)
  case Nil
  show ?case by (simp add: passedOver_def)
next
  case (Cons e entries)
  obtain q m where e: "e = (q, m)" by (cases e)
  have "Compile' (regexPattern q) = Compile (regexPattern q)"
    using Cons.prems(1) e by simp
  moreover have "passedOver Compile' out entries"
    using Cons unfolding passedOver_def by simp
  ultimately show ?case
    using Cons.prems(2) unfolding passedOver_def e compiles_def warningMatches_def by simp
qed


section \<open>Lemmas about the commands\<close>

lemma runAndCheckWarnings_executed:
  "snd (runAndCheckWarnings Compile sh opts cmd executed) = executed @ [cmd]"
  unfolding runAndCheckWarnings_def RunCommandAndGetOutputE_def
  by (simp split: option.splits)

lemma retry_executed:
  "\<exists>k\<le>maxRetries.
     snd (DoWithRetryableErrorsE Compile retryable maxRetries
            (runAndCheckWarnings Compile' sh opts cmd) executed)
       = executed @ replicate (Suc k) cmd"
proof (induction maxRetries arbitrary: executed)
  case 0
  show ?case by (simp add: runAndCheckWarnings_executed)
next
  case (Suc n)
  let ?act = "runAndCheckWarnings Compile' sh opts cmd"
  obtain out err ex' where r: "?act executed = ((out, err), ex')"
    by (metis prod.exhaust)
  have ex': "ex' = executed @ [cmd]"
    using runAndCheckWarnings_executed [of Compile' sh opts cmd executed] r by simp
  show ?case
  proof (cases "\<exists>e. err = Some e \<and> isRetryable Compile retryable (Error e)")
    case True
    then have "DoWithRetryableErrorsE Compile retryable (Suc n) ?act executed
        = DoWithRetryableErrorsE Compile retryable n ?act (executed @ [cmd])"
      using r ex' by auto
    moreover obtain k where "k \<le> n"
      and "snd (DoWithRetryableErrorsE Compile retryable n ?act (executed @ [cmd]))
            = (executed @ [cmd]) @ replicate (Suc k) cmd"
      using Suc.IH by blast
    ultimately have "snd (DoWithRetryableErrorsE Compile retryable (Suc n) ?act executed)
        = executed @ replicate (Suc (Suc k)) cmd \<and> Suc k \<le> Suc n"
      by simp
    then show ?thesis by blast
  next
    case False
    then have "DoWithRetryableErrorsE Compile retryable (Suc n) ?act executed = ((out, err), ex')"
      using r by (cases err) auto
    then have "snd (DoWithRetryableErrorsE Compile retryable (Suc n) ?act executed)
        = executed @ replicate (Suc 0) cmd \<and> 0 \<le> Suc n"
      using ex' by simp
    then show ?thesis by blast
  qed
qed

lemma output_command_executed:
  assumes "validateOptions opts = None"
  shows "\<exists>k cmd.
     snd (runTerragruntStackOutputCommand Compile sh GetCommonOptions opts outputArgs executed)
       = executed @ replicate (Suc k) cmd
     \<and> Args cmd = snd (GetCommonOptions opts ([''stack'', ''output''] @ outputArgs))"
proof -
  let ?args = "[''stack'', ''output''] @ outputArgs"
  obtain topts fargs where g: "GetCommonOptions opts ?args = (topts, fargs)"
    by (cases "GetCommonOptions opts ?args")
  let ?cmd = "generateCommand topts fargs"
  have run: "runTerragruntStackOutputCommand Compile sh GetCommonOptions opts outputArgs executed
      = DoWithRetryableErrorsE Compile (RetryableTerraformErrors topts) (MaxRetries topts)
          (runAndCheckWarnings Compile sh opts ?cmd) executed"
    unfolding runTerragruntStackOutputCommand_def using g assms by (simp add: Let_def)
  obtain k where "snd (DoWithRetryableErrorsE Compile (RetryableTerraformErrors topts)
      (MaxRetries topts) (runAndCheckWarnings Compile sh opts ?cmd) executed)
        = executed @ replicate (Suc k) ?cmd"
    using retry_executed by blast
  then have "snd (runTerragruntStackOutputCommand Compile sh GetCommonOptions opts outputArgs
      executed) = executed @ replicate (Suc k) ?cmd"
    using run by simp
  moreover have "Args ?cmd = snd (GetCommonOptions opts ?args)"
    using g by (simp add: generateCommand_def)
  ultimately show ?thesis by blast
qed

lemma TgOutputE_executed:
  "snd (TgOutputE Compile sh GetCommonOptions opts key executed)
     = snd (runTerragruntStackOutputCommand Compile sh GetCommonOptions opts
         ([''-no-color''] @ ExtraArgs opts @ (if key = [] then [] else [key])) executed)"
  unfolding TgOutputE_def
  by (simp add: Let_def split: prod.splits option.splits)

lemma TgOutputJsonE_executed:
  "snd (TgOutputJsonE Unmarshal MarshalIndent Compile sh GetCommonOptions opts key executed)
     = snd (runTerragruntStackOutputCommand Compile sh GetCommonOptions opts
         ([''-no-color'', ''-json''] @ ExtraArgs opts @ (if key = [] then [] else [key])) executed)"
  unfolding TgOutputJsonE_def
  by (simp add: Let_def split: prod.splits option.splits)


section \<open>Lemmas about the filter\<close>













section \<open>The output cleaner: scalar path\<close>

text \<open>
  Claim C9, as amended. Cleaning output that is already clean returns it unchanged,
  provided that in addition no line of it starts or ends with white space: if no line is a
  structured log line or blank, the text has no \<^verbatim>\<open>" msg="\<close> substring, it is not wrapped in
  double quotes and every line is its own \<^verbatim>\<open>TrimSpace\<close>, then \<^verbatim>\<open>cleanTerragruntOutput\<close>
  returns the text itself and no error.
\<close>

theorem cleanTerragruntOutput_clean_unchanged:
  assumes "alreadyClean s" and "noOuterSpace s"
  shows "cleanTerragruntOutput s = (s, None)"
proof -
  have lines: "\<forall>l\<in>set (Split s). \<not> isLogLine l \<and> TrimSpace l = l \<and> l \<noteq> []"
    using assms unfolding alreadyClean_def noOuterSpace_def list_all_iff by auto
  have nomsg: "\<not> Contains s '' msg=''"
    using assms(1) unfolding alreadyClean_def by blast
  have "map (\<lambda>line. if isLogLine line then [] else line) (Split s) = Split s"
    using lines by (simp add: map_idI)
  then have repl: "tgLogLevel_ReplaceAllString s = s"
    unfolding tgLogLevel_ReplaceAllString_def by (simp add: Join_Split)
  have "\<forall>l\<in>set (Split s). TrimSpace l = l \<and> l \<noteq> [] \<and> \<not> Contains l '' msg=''"
    using lines nomsg Contains_line by blast
  then have filt: "filterLines (Split s) = Split s"
    by (rule filterLines_id)
  have trim: "TrimSpace s = s"
    using lines by (intro TrimSpace_lines) blast
  have quotes: "\<not> (HasPrefix s [dq] \<and> HasSuffix s [dq])"
    using assms(1) unfolding alreadyClean_def by blast
  show ?thesis
    unfolding cleanTerragruntOutput_def repl
    using filt trim quotes Split_not_Nil [of s]
    by (auto simp add: Let_def Join_Split)
qed

text \<open>
  Claim C9, witness: the two lines \<^verbatim>\<open>vpc-1\<close> and \<^verbatim>\<open>vpc-2\<close> satisfy the hypotheses and are
  returned unchanged.
\<close>

theorem cleanTerragruntOutput_clean_unchanged_witness:
  "alreadyClean (''vpc-1'' @ [nl] @ ''vpc-2'') \<and> noOuterSpace (''vpc-1'' @ [nl] @ ''vpc-2'')
   \<and> cleanTerragruntOutput (''vpc-1'' @ [nl] @ ''vpc-2'') = (''vpc-1'' @ [nl] @ ''vpc-2'', None)"
proof -
  have a: "alreadyClean (''vpc-1'' @ [nl] @ ''vpc-2'')" by code_simp
  have b: "noOuterSpace (''vpc-1'' @ [nl] @ ''vpc-2'')" by code_simp
  show ?thesis
    using a b cleanTerragruntOutput_clean_unchanged [OF a b] by simp
qed

text \<open>
  Claim C9 as stated fails: the text \<^verbatim>\<open>" vpc-1"\<close>, with a leading space, has no log line,
  no blank line, no \<^verbatim>\<open>" msg="\<close> and no surrounding quotes, and the cleaner returns
  \<^verbatim>\<open>"vpc-1"\<close>, since every line is trimmed.
\<close>

theorem cleanTerragruntOutput_clean_changed:
  "alreadyClean '' vpc-1'' \<and> fst (cleanTerragruntOutput '' vpc-1'') \<noteq> '' vpc-1''"
  by code_simp

text \<open>
  Claim C2. The filtered output \<^verbatim>\<open>"a\""\<close> (a quoted value that ends in an escaped quote)
  starts and ends with a double quote and does not start with a brace or bracket.
  Stripping the outer pair of quotes would give \<^verbatim>\<open>a\"\<close>; \<^verbatim>\<open>strings.Trim\<close> removes every
  trailing quote, and \<^verbatim>\<open>cleanTerragruntOutput\<close> returns \<^verbatim>\<open>a\\<close>.
\<close>

theorem cleanTerragruntOutput_trims_every_quote:
  "cleanTerragruntOutput ([dq] @ ''a'' @ [bs, dq, dq]) = (''a'' @ [bs], None)"
  by code_simp

section \<open>The warning classifier: what the loop returns\<close>

text \<open>
  Claim C3, as amended. Let the loop of \<^verbatim>\<open>hasWarning\<close> visit the entries \<open>before\<close>, then
  \<open>(p, msg)\<close>, then \<open>after\<close>. If every pattern of \<open>before\<close> compiles and has no match in
  the output, and \<open>p\<close> compiles and has at least one match, then \<^verbatim>\<open>hasWarning\<close> returns the
  warning error of \<open>p\<close>: its text is \<^verbatim>\<open>warning(s) were found: \<close>, the message configured for
  \<open>p\<close>, a colon, a newline and the matches of \<open>p\<close> concatenated, so it contains the message
  and every match. If every pattern compiles and none has a match, \<^verbatim>\<open>hasWarning\<close> returns no
  error.
\<close>

theorem hasWarning_first_match:
  "(passedOver Compile out before \<and> compiles Compile p \<and> warningMatches Compile p out \<noteq> []
      \<and> WarningsAsErrors opts = before @ (p, msg) # after \<longrightarrow>
        hasWarning Compile opts out = Some (WarningError msg (warningMatches Compile p out))
        \<and> Error (WarningError msg (warningMatches Compile p out))
            = ''warning(s) were found: '' @ msg @ '':'' @ [nl] @ concat (warningMatches Compile p out)
        \<and> Contains (Error (WarningError msg (warningMatches Compile p out))) msg
        \<and> list_all (Contains (Error (WarningError msg (warningMatches Compile p out))))
            (warningMatches Compile p out))
   \<and> (passedOver Compile out (WarningsAsErrors opts) \<longrightarrow> hasWarning Compile opts out = None)"
proof (intro conjI impI)
  assume "passedOver Compile out (WarningsAsErrors opts)"
  then show "hasWarning Compile opts out = None"
    using hasWarningLoop_passedOver [of Compile out "WarningsAsErrors opts" "[]"]
    unfolding hasWarning_def by simp
next
  assume a: "passedOver Compile out before \<and> compiles Compile p
    \<and> warningMatches Compile p out \<noteq> [] \<and> WarningsAsErrors opts = before @ (p, msg) # after"
  then have "hasWarningLoop Compile (before @ (p, msg) # after) out
      = hasWarningLoop Compile ((p, msg) # after) out"
    by (intro hasWarningLoop_passedOver) simp
  also have "\<dots> = Some (WarningError msg (warningMatches Compile p out))"
    using a by (intro hasWarningLoop_match) simp_all
  finally show "hasWarning Compile opts out = Some (WarningError msg (warningMatches Compile p out))"
    unfolding hasWarning_def using a by simp
  show "Error (WarningError msg (warningMatches Compile p out))
      = ''warning(s) were found: '' @ msg @ '':'' @ [nl] @ concat (warningMatches Compile p out)"
    by (simp add: Join_empty_sep)
  have "Error (WarningError msg (warningMatches Compile p out))
      = ''warning(s) were found: '' @ msg @ ('':'' @ [nl] @ concat (warningMatches Compile p out))"
    by (simp add: Join_empty_sep)
  then show "Contains (Error (WarningError msg (warningMatches Compile p out))) msg"
    unfolding Contains_iff by blast
  have e: "Error (WarningError msg (warningMatches Compile p out))
      = (''warning(s) were found: '' @ msg @ '':'' @ [nl]) @ concat (warningMatches Compile p out)"
    by (simp add: Join_empty_sep)
  show "list_all (Contains (Error (WarningError msg (warningMatches Compile p out))))
            (warningMatches Compile p out)"
    unfolding list_all_iff e using Contains_concat by blast
qed

text \<open>
  Claim C3, witness: the pattern table and the output of the scenario in the specification,
  with one more pattern that does not match.
\<close>

theorem hasWarning_first_match_witness:
  "passedOver fragmentCompile deprecatedOutput [(''Removed'', ''removed features used'')]
   \<and> compiles fragmentCompile ''Deprecat''
   \<and> warningMatches fragmentCompile ''Deprecat'' deprecatedOutput = [deprecatedOutput]
   \<and> hasWarning fragmentCompile
        (exampleOptions\<lparr>WarningsAsErrors :=
           [(''Removed'', ''removed features used''), (''Deprecat'', ''deprecated features used'')]\<rparr>)
        deprecatedOutput
       = Some (WarningError ''deprecated features used'' [deprecatedOutput])
   \<and> Contains (Error (WarningError ''deprecated features used'' [deprecatedOutput]))
        ''deprecated features used''
   \<and> Contains (Error (WarningError ''deprecated features used'' [deprecatedOutput]))
        deprecatedOutput
   \<and> hasWarning fragmentCompile
        (exampleOptions\<lparr>WarningsAsErrors := [(''Removed'', ''removed features used'')]\<rparr>)
        deprecatedOutput = None"
proof -
  have p: "passedOver fragmentCompile deprecatedOutput [(''Removed'', ''removed features used'')]"
    by code_simp
  have c: "compiles fragmentCompile ''Deprecat''"
    by code_simp
  have m: "warningMatches fragmentCompile ''Deprecat'' deprecatedOutput = [deprecatedOutput]"
    by code_simp
  show ?thesis
    using p c m
      hasWarning_first_match [of fragmentCompile deprecatedOutput
        "[(''Removed'', ''removed features used'')]" "''Deprecat''"
        "exampleOptions\<lparr>WarningsAsErrors :=
           [(''Removed'', ''removed features used''), (''Deprecat'', ''deprecated features used'')]\<rparr>"
        "''deprecated features used''" "[]"]
      hasWarning_first_match [of fragmentCompile deprecatedOutput
        "[]" "''Deprecat''"
        "exampleOptions\<lparr>WarningsAsErrors := [(''Removed'', ''removed features used'')]\<rparr>"
        "''deprecated features used''" "[]"]
    by simp
qed

text \<open>
  Claim C3 as stated fails: the patterns \<^verbatim>\<open>Deprecat\<close> and \<^verbatim>\<open>Experimental\<close> both have a
  match in the output, and the error returned is the one of the pattern visited first; it
  does not contain the message configured for the other pattern, in either order.
\<close>

theorem hasWarning_other_pattern_wins:
  "warningMatches fragmentCompile ''Experimental'' mixedOutput \<noteq> []
   \<and> warningMatches fragmentCompile ''Deprecat'' mixedOutput \<noteq> []
   \<and> hasWarningLoop fragmentCompile
        [(''Deprecat'', ''deprecated features used''), (''Experimental'', ''experimental features used'')]
        mixedOutput
       = Some (WarningError ''deprecated features used''
           (warningMatches fragmentCompile ''Deprecat'' mixedOutput))
   \<and> \<not> Contains (Error (WarningError ''deprecated features used''
           (warningMatches fragmentCompile ''Deprecat'' mixedOutput))) ''experimental features used''
   \<and> hasWarningLoop fragmentCompile
        [(''Experimental'', ''experimental features used''), (''Deprecat'', ''deprecated features used'')]
        mixedOutput
       = Some (WarningError ''experimental features used''
           (warningMatches fragmentCompile ''Experimental'' mixedOutput))
   \<and> \<not> Contains (Error (WarningError ''experimental features used''
           (warningMatches fragmentCompile ''Experimental'' mixedOutput))) ''deprecated features used''"
  by code_simp

text \<open>
  Claim C4, as amended. Within one visit of the entries the first match wins and the loop
  stops there: if every pattern visited before \<open>p\<close> compiles and has no match, and \<open>p\<close>
  compiles and matches, the result is the warning error of \<open>p\<close> whatever entries come after
  it (\<open>after\<close>, \<open>after'\<close>) and whatever the library would do on their patterns (\<open>Compile'\<close>
  agrees with \<open>Compile\<close> on the patterns up to \<open>p\<close> only). The order of the visit itself is
  the one of Go's \<^verbatim>\<open>range\<close> over a map, which is not fixed.
\<close>

theorem hasWarning_short_circuit:
  assumes "passedOver Compile out before"
    and "compiles Compile p"
    and "warningMatches Compile p out \<noteq> []"
    and "list_all (\<lambda>q. Compile' (regexPattern q) = Compile (regexPattern q))
           (map fst before @ [p])"
  shows "hasWarningLoop Compile' (before @ (p, msg) # after') out
           = Some (WarningError msg (warningMatches Compile p out))
         \<and> hasWarningLoop Compile (before @ (p, msg) # after) out
           = Some (WarningError msg (warningMatches Compile p out))"
proof -
  have same: "list_all (\<lambda>q. Compile' (regexPattern q) = Compile (regexPattern q)) (map fst before)"
    and samep: "Compile' (regexPattern p) = Compile (regexPattern p)"
    using assms(4) by simp_all
  have po: "passedOver Compile' out before"
    using same assms(1) by (rule passedOver_agree)
  have cp: "compiles Compile' p" and wp: "warningMatches Compile' p out = warningMatches Compile p out"
    using assms(2) samep unfolding compiles_def warningMatches_def by simp_all
  have "hasWarningLoop Compile' (before @ (p, msg) # after') out
      = hasWarningLoop Compile' ((p, msg) # after') out"
    using po by (rule hasWarningLoop_passedOver)
  also have "\<dots> = Some (WarningError msg (warningMatches Compile' p out))"
    using cp wp assms(3) by (intro hasWarningLoop_match) simp_all
  finally have 1: "hasWarningLoop Compile' (before @ (p, msg) # after') out
      = Some (WarningError msg (warningMatches Compile p out))"
    using wp by simp
  have "hasWarningLoop Compile (before @ (p, msg) # after) out
      = hasWarningLoop Compile ((p, msg) # after) out"
    using assms(1) by (rule hasWarningLoop_passedOver)
  also have "\<dots> = Some (WarningError msg (warningMatches Compile p out))"
    using assms(2,3) by (rule hasWarningLoop_match)
  finally show ?thesis using 1 by simp
qed

text \<open>
  Claim C4, witness: after \<^verbatim>\<open>Deprecat\<close> has matched, a malformed pattern or another matching
  pattern later in the visit changes nothing.
\<close>

theorem hasWarning_short_circuit_witness:
  "passedOver fragmentCompile mixedOutput [(''Removed'', ''removed features used'')]
   \<and> compiles fragmentCompile ''Deprecat''
   \<and> warningMatches fragmentCompile ''Deprecat'' mixedOutput \<noteq> []
   \<and> hasWarningLoop fragmentCompile
        [(''Removed'', ''removed features used''), (''Deprecat'', ''deprecated features used''),
         (''('', ''malformed'')] mixedOutput
       = Some (WarningError ''deprecated features used''
           (warningMatches fragmentCompile ''Deprecat'' mixedOutput))
   \<and> hasWarningLoop fragmentCompile
        [(''Removed'', ''removed features used''), (''Deprecat'', ''deprecated features used''),
         (''Experimental'', ''experimental features used'')] mixedOutput
       = Some (WarningError ''deprecated features used''
           (warningMatches fragmentCompile ''Deprecat'' mixedOutput))"
proof -
  have p: "passedOver fragmentCompile mixedOutput [(''Removed'', ''removed features used'')]"
    by code_simp
  have c: "compiles fragmentCompile ''Deprecat''"
    by code_simp
  have m: "warningMatches fragmentCompile ''Deprecat'' mixedOutput \<noteq> []"
    by code_simp
  have s: "list_all (\<lambda>q. fragmentCompile (regexPattern q) = fragmentCompile (regexPattern q))
             (map fst [(''Removed'', ''removed features used'')] @ [''Deprecat''])"
    by simp
  show ?thesis
    using p c m
      hasWarning_short_circuit [OF p c m s, of "''deprecated features used''"
        "[(''('', ''malformed'')]" "[(''Experimental'', ''experimental features used'')]"]
    by simp
qed

text \<open>
  Claim C4 as stated fails: the same mapping of two patterns that both match, visited in
  the two possible orders, gives two different errors.
\<close>

theorem hasWarning_order_dependent:
  "set [(''Deprecat'', ''deprecated features used''), (''Experimental'', ''experimental features used'')]
     = set [(''Experimental'', ''experimental features used''), (''Deprecat'', ''deprecated features used'')]
   \<and> warningMatches fragmentCompile ''Deprecat'' mixedOutput \<noteq> []
   \<and> warningMatches fragmentCompile ''Experimental'' mixedOutput \<noteq> []
   \<and> hasWarningLoop fragmentCompile
        [(''Deprecat'', ''deprecated features used''), (''Experimental'', ''experimental features used'')]
        mixedOutput
     \<noteq> hasWarningLoop fragmentCompile
        [(''Experimental'', ''experimental features used''), (''Deprecat'', ''deprecated features used'')]
        mixedOutput"
  by code_simp

text \<open>
  Claim C5, as amended. A malformed pattern is reported when the loop reaches it: if every
  pattern visited before it compiles and has no match in the output, \<^verbatim>\<open>hasWarning\<close> returns
  the error \<^verbatim>\<open>cannot compile regex for warning detection: \<close> followed by the compilation
  error, whatever comes after it.
\<close>

theorem hasWarning_malformed_pattern:
  assumes "passedOver Compile out before"
    and "compileError Compile p = Some err"
    and "WarningsAsErrors opts = before @ (p, msg) # after"
  shows "hasWarning Compile opts out = Some (RegexCompileError err)
         \<and> Error (RegexCompileError err) = ''cannot compile regex for warning detection: '' @ err"
proof -
  have "hasWarningLoop Compile (before @ (p, msg) # after) out
      = hasWarningLoop Compile ((p, msg) # after) out"
    using assms(1) by (rule hasWarningLoop_passedOver)
  also have "\<dots> = Some (RegexCompileError err)"
    using assms(2) unfolding compileError_def by (simp split: sum.splits)
  finally show ?thesis
    unfolding hasWarning_def using assms(3) by simp
qed

text \<open>
  Claim C5, witness: the malformed pattern \<^verbatim>\<open>(\<close> is reported although a later pattern
  would match the output.
\<close>

theorem hasWarning_malformed_pattern_witness:
  "passedOver fragmentCompile deprecatedOutput [(''Removed'', ''removed features used'')]
   \<and> compileError fragmentCompile ''('' = Some ''error parsing regexp''
   \<and> hasWarning fragmentCompile
        (exampleOptions\<lparr>WarningsAsErrors :=
           [(''Removed'', ''removed features used''), (''('', ''malformed''),
            (''Deprecat'', ''deprecated features used'')]\<rparr>)
        deprecatedOutput
       = Some (RegexCompileError ''error parsing regexp'')"
proof -
  have p: "passedOver fragmentCompile deprecatedOutput [(''Removed'', ''removed features used'')]"
    by code_simp
  have c: "compileError fragmentCompile ''('' = Some ''error parsing regexp''"
    by code_simp
  have w: "WarningsAsErrors (exampleOptions\<lparr>WarningsAsErrors :=
           [(''Removed'', ''removed features used''), (''('', ''malformed''),
            (''Deprecat'', ''deprecated features used'')]\<rparr>)
      = [(''Removed'', ''removed features used'')] @ (''('', ''malformed'')
          # [(''Deprecat'', ''deprecated features used'')]"
    by simp
  show ?thesis
    using p c hasWarning_malformed_pattern [OF p c w] by simp
qed

text \<open>
  Claim C5 as stated fails: when a pattern that matches is visited before the malformed
  one, the warning error is returned and the malformed pattern is never compiled.
\<close>

theorem hasWarning_malformed_pattern_not_reached:
  "compileError fragmentCompile ''('' = Some ''error parsing regexp''
   \<and> hasWarning fragmentCompile
        (exampleOptions\<lparr>WarningsAsErrors :=
           [(''Deprecat'', ''deprecated features used''), (''('', ''malformed'')]\<rparr>)
        deprecatedOutput
       = Some (WarningError ''deprecated features used'' [deprecatedOutput])"
  by code_simp


section \<open>The stack commands: arguments, validation, retries\<close>



text \<open>
  Claim C10. Let the options pass \<^verbatim>\<open>validateOptions\<close>, so that a command is executed, and let
  \<^verbatim>\<open>GetCommonOptions\<close> return the arguments it is given followed by further arguments
  \<open>added\<close>. Then \<^verbatim>\<open>TgOutputE\<close> executes, once or more, one command and nothing else, and so does
  \<^verbatim>\<open>TgOutputJsonE\<close>. Its arguments are \<^verbatim>\<open>stack output -no-color\<close> (then \<^verbatim>\<open>-json\<close> in the JSON
  variant), the configured extra arguments, the key when it is not empty, and \<open>added\<close>. The
  command is not the trial invocation \<^verbatim>\<open>-experiment stack\<close>, and the tokens \<^verbatim>\<open>--\<close> and
  \<^verbatim>\<open>-experiment\<close> occur in the arguments exactly as often as in the extra arguments, the key
  and \<open>added\<close>: this path inserts none of its own.
\<close>

theorem output_command_arguments:
  assumes "validateOptions opts = None"
    and "snd (GetCommonOptions opts
                ([''stack'', ''output'', ''-no-color''] @ ExtraArgs opts @ keyArgs key))
           = [''stack'', ''output'', ''-no-color''] @ ExtraArgs opts @ keyArgs key @ added"
    and "snd (GetCommonOptions opts
                ([''stack'', ''output'', ''-no-color'', ''-json''] @ ExtraArgs opts @ keyArgs key))
           = [''stack'', ''output'', ''-no-color'', ''-json''] @ ExtraArgs opts @ keyArgs key @ addedJson"
  shows "(\<exists>k cmd.
            snd (TgOutputE Compile sh GetCommonOptions opts key executed)
              = executed @ replicate (Suc k) cmd
            \<and> Args cmd = [''stack'', ''output'', ''-no-color''] @ ExtraArgs opts @ keyArgs key @ added
            \<and> Args cmd \<noteq> Args (experimentalTestCmd opts)
            \<and> count_list (Args cmd) ''--''
                = count_list (ExtraArgs opts @ keyArgs key @ added) ''--''
            \<and> count_list (Args cmd) ''-experiment''
                = count_list (ExtraArgs opts @ keyArgs key @ added) ''-experiment'')
       \<and> (\<exists>k cmd.
            snd (TgOutputJsonE Unmarshal MarshalIndent Compile sh GetCommonOptions opts key executed)
              = executed @ replicate (Suc k) cmd
            \<and> Args cmd
                = [''stack'', ''output'', ''-no-color'', ''-json''] @ ExtraArgs opts @ keyArgs key
                    @ addedJson
            \<and> Args cmd \<noteq> Args (experimentalTestCmd opts)
            \<and> count_list (Args cmd) ''--''
                = count_list (ExtraArgs opts @ keyArgs key @ addedJson) ''--''
            \<and> count_list (Args cmd) ''-experiment''
                = count_list (ExtraArgs opts @ keyArgs key @ addedJson) ''-experiment'')"
proof (rule conjI)
  obtain k cmd where
    1: "snd (runTerragruntStackOutputCommand Compile sh GetCommonOptions opts
          ([''-no-color''] @ ExtraArgs opts @ keyArgs key) executed) = executed @ replicate (Suc k) cmd"
    and 2: "Args cmd = snd (GetCommonOptions opts
          ([''stack'', ''output''] @ [''-no-color''] @ ExtraArgs opts @ keyArgs key))"
    using output_command_executed [OF assms(1)] by blast
  have a: "Args cmd = [''stack'', ''output'', ''-no-color''] @ ExtraArgs opts @ keyArgs key @ added"
    using 2 assms(2) by simp
  have e: "snd (TgOutputE Compile sh GetCommonOptions opts key executed)
      = executed @ replicate (Suc k) cmd"
    using 1 unfolding TgOutputE_executed keyArgs_def by simp
  have "Args cmd \<noteq> Args (experimentalTestCmd opts)"
    unfolding a experimentalTestCmd_def by simp
  moreover have "count_list (Args cmd) ''--''
      = count_list (ExtraArgs opts @ keyArgs key @ added) ''--''"
    unfolding a by simp
  moreover have "count_list (Args cmd) ''-experiment''
      = count_list (ExtraArgs opts @ keyArgs key @ added) ''-experiment''"
    unfolding a by simp
  ultimately show "\<exists>k cmd.
            snd (TgOutputE Compile sh GetCommonOptions opts key executed)
              = executed @ replicate (Suc k) cmd
            \<and> Args cmd = [''stack'', ''output'', ''-no-color''] @ ExtraArgs opts @ keyArgs key @ added
            \<and> Args cmd \<noteq> Args (experimentalTestCmd opts)
            \<and> count_list (Args cmd) ''--''
                = count_list (ExtraArgs opts @ keyArgs key @ added) ''--''
            \<and> count_list (Args cmd) ''-experiment''
                = count_list (ExtraArgs opts @ keyArgs key @ added) ''-experiment''"
    using a e by blast
next
  obtain k cmd where
    1: "snd (runTerragruntStackOutputCommand Compile sh GetCommonOptions opts
          ([''-no-color'', ''-json''] @ ExtraArgs opts @ keyArgs key) executed)
        = executed @ replicate (Suc k) cmd"
    and 2: "Args cmd = snd (GetCommonOptions opts
          ([''stack'', ''output''] @ [''-no-color'', ''-json''] @ ExtraArgs opts @ keyArgs key))"
    using output_command_executed [OF assms(1)] by blast
  have a: "Args cmd
      = [''stack'', ''output'', ''-no-color'', ''-json''] @ ExtraArgs opts @ keyArgs key @ addedJson"
    using 2 assms(3) by simp
  have e: "snd (TgOutputJsonE Unmarshal MarshalIndent Compile sh GetCommonOptions opts key executed)
      = executed @ replicate (Suc k) cmd"
    using 1 unfolding TgOutputJsonE_executed keyArgs_def by simp
  have "Args cmd \<noteq> Args (experimentalTestCmd opts)"
    unfolding a experimentalTestCmd_def by simp
  moreover have "count_list (Args cmd) ''--''
      = count_list (ExtraArgs opts @ keyArgs key @ addedJson) ''--''"
    unfolding a by simp
  moreover have "count_list (Args cmd) ''-experiment''
      = count_list (ExtraArgs opts @ keyArgs key @ addedJson) ''-experiment''"
    unfolding a by simp
  ultimately show "\<exists>k cmd.
            snd (TgOutputJsonE Unmarshal MarshalIndent Compile sh GetCommonOptions opts key executed)
              = executed @ replicate (Suc k) cmd
            \<and> Args cmd
                = [''stack'', ''output'', ''-no-color'', ''-json''] @ ExtraArgs opts @ keyArgs key
                    @ addedJson
            \<and> Args cmd \<noteq> Args (experimentalTestCmd opts)
            \<and> count_list (Args cmd) ''--''
                = count_list (ExtraArgs opts @ keyArgs key @ addedJson) ''--''
            \<and> count_list (Args cmd) ''-experiment''
                = count_list (ExtraArgs opts @ keyArgs key @ addedJson) ''-experiment''"
    using a e by blast
qed

text \<open>
  Claim C10, witness: extra arguments \<^verbatim>\<open>-log-level error\<close> and the key \<^verbatim>\<open>vpc_id\<close>.
\<close>

theorem output_command_arguments_witness:
  "validateOptions (exampleOptions\<lparr>ExtraArgs := [''-log-level'', ''error'']\<rparr>) = None
   \<and> (\<exists>k cmd.
        snd (TgOutputE fragmentCompile warningShell plainOptions
               (exampleOptions\<lparr>ExtraArgs := [''-log-level'', ''error'']\<rparr>) ''vpc_id'' [])
          = replicate (Suc k) cmd
        \<and> Args cmd = [''stack'', ''output'', ''-no-color'', ''-log-level'', ''error'', ''vpc_id''])
   \<and> (\<exists>k cmd.
        snd (TgOutputJsonE fragmentUnmarshal fragmentMarshalIndent fragmentCompile warningShell
               plainOptions (exampleOptions\<lparr>ExtraArgs := [''-log-level'', ''error'']\<rparr>)
               ''vpc_id'' [])
          = replicate (Suc k) cmd
        \<and> Args cmd
            = [''stack'', ''output'', ''-no-color'', ''-json'', ''-log-level'', ''error'', ''vpc_id''])"
proof -
  let ?opts = "exampleOptions\<lparr>ExtraArgs := [''-log-level'', ''error'']\<rparr>"
  have v: "validateOptions ?opts = None" by code_simp
  have g: "snd (plainOptions ?opts
                ([''stack'', ''output'', ''-no-color''] @ ExtraArgs ?opts @ keyArgs ''vpc_id''))
           = [''stack'', ''output'', ''-no-color''] @ ExtraArgs ?opts @ keyArgs ''vpc_id'' @ []"
    by (simp add: plainOptions_def)
  have j: "snd (plainOptions ?opts
                ([''stack'', ''output'', ''-no-color'', ''-json''] @ ExtraArgs ?opts
                   @ keyArgs ''vpc_id''))
           = [''stack'', ''output'', ''-no-color'', ''-json''] @ ExtraArgs ?opts
               @ keyArgs ''vpc_id'' @ []"
    by (simp add: plainOptions_def)
  have e: "ExtraArgs ?opts = [''-log-level'', ''error'']" by simp
  have k: "keyArgs ''vpc_id'' = [''vpc_id'']" by (simp add: keyArgs_def)
  show ?thesis
    using v g j
      output_command_arguments [where opts = "?opts" and GetCommonOptions = plainOptions
        and key = "''vpc_id''" and added = "[]" and addedJson = "[]"
        and Compile = fragmentCompile and sh = warningShell and executed = "[]"
        and Unmarshal = fragmentUnmarshal and MarshalIndent = fragmentMarshalIndent]
    unfolding e k by auto
qed

text \<open>
  Claim C7. With empty options (\<^verbatim>\<open>&Options{}\<close>, as in the test
  \<^verbatim>\<open>TestTerragruntStackRunEmptyOptions\<close>) \<^verbatim>\<open>validateOptions\<close> reports a configuration error and
  \<^verbatim>\<open>runTerragruntStackOutputCommand\<close> returns it with no command executed.
  \<^verbatim>\<open>runTerragruntStackSubCommandE\<close> does not call \<^verbatim>\<open>validateOptions\<close>: it executes the trial
  invocation with the empty binary path, then the stack command with the empty binary path
  and working directory, and returns the error of that process.
\<close>

theorem stack_sub_command_runs_without_validation:
  "validateOptions emptyOptions = Some (ConfigError ''TerragruntBinary is required'')
   \<and> runTerragruntStackOutputCommand fragmentCompile failingShell plainOptions emptyOptions
        [''-no-color''] []
       = (([], Some (ConfigError ''TerragruntBinary is required'')), [])
   \<and> runTerragruntStackSubCommandE fragmentCompile failingShell plainOptions emptyOptions
        ''run'' [''plan''] []
       = (([], Some (ProcessError ''exec: no command'')),
          [\<lparr>Command = [], Args = [''-experiment'', ''stack''], WorkingDir = [], Env = []\<rparr>,
           \<lparr>Command = [], Args = [''stack'', ''run'', ''--'', ''plan''], WorkingDir = [],
            Env = []\<rparr>])"
  by code_simp

text \<open>
  Claim C6, as amended. When the execution succeeds and \<^verbatim>\<open>hasWarning\<close> reports an error,
  the function handed to the retry loop returns that error like the error of a failed
  process. The loop surfaces it after this one execution when its text matches no retryable
  pattern; when its text matches a retryable pattern and retries are left, the loop runs the
  command again.
\<close>

theorem warning_error_in_retry_loop:
  assumes "snd (sh executed cmd) = None"
    and "hasWarning Compile opts (fst (sh executed cmd)) = Some warningErr"
  shows "(\<not> isRetryable Compile retryableErrors (Error warningErr) \<longrightarrow>
            DoWithRetryableErrorsE Compile retryableErrors maxRetries
              (runAndCheckWarnings Compile sh opts cmd) executed
            = ((fst (sh executed cmd), Some warningErr), executed @ [cmd]))
       \<and> (isRetryable Compile retryableErrors (Error warningErr) \<longrightarrow>
            DoWithRetryableErrorsE Compile retryableErrors (Suc maxRetries)
              (runAndCheckWarnings Compile sh opts cmd) executed
            = DoWithRetryableErrorsE Compile retryableErrors maxRetries
                (runAndCheckWarnings Compile sh opts cmd) (executed @ [cmd]))"
proof -
  have act: "runAndCheckWarnings Compile sh opts cmd executed
      = ((fst (sh executed cmd), Some warningErr), executed @ [cmd])"
    unfolding runAndCheckWarnings_def RunCommandAndGetOutputE_def using assms by simp
  show ?thesis
  proof (intro conjI impI)
    assume "\<not> isRetryable Compile retryableErrors (Error warningErr)"
    then show "DoWithRetryableErrorsE Compile retryableErrors maxRetries
              (runAndCheckWarnings Compile sh opts cmd) executed
            = ((fst (sh executed cmd), Some warningErr), executed @ [cmd])"
      using act by (cases maxRetries) simp_all
  next
    assume "isRetryable Compile retryableErrors (Error warningErr)"
    then show "DoWithRetryableErrorsE Compile retryableErrors (Suc maxRetries)
              (runAndCheckWarnings Compile sh opts cmd) executed
            = DoWithRetryableErrorsE Compile retryableErrors maxRetries
                (runAndCheckWarnings Compile sh opts cmd) (executed @ [cmd])"
      using act by simp
  qed
qed

text \<open>
  Claim C6, witness: the deprecation warning, with a retryable pattern that does not match
  the text of the warning error and with one that does.
\<close>

theorem warning_error_in_retry_loop_witness:
  "snd (warningShell [] (generateCommand deprecationOptions [''stack'', ''run''])) = None
   \<and> hasWarning fragmentCompile deprecationOptions deprecatedOutput
       = Some (WarningError ''deprecated features used'' [deprecatedOutput])
   \<and> \<not> isRetryable fragmentCompile (RetryableTerraformErrors deprecationOptions)
         (Error (WarningError ''deprecated features used'' [deprecatedOutput]))
   \<and> DoWithRetryableErrorsE fragmentCompile (RetryableTerraformErrors deprecationOptions) 2
        (runAndCheckWarnings fragmentCompile warningShell deprecationOptions
           (generateCommand deprecationOptions [''stack'', ''run''])) []
       = ((deprecatedOutput, Some (WarningError ''deprecated features used'' [deprecatedOutput])),
          [generateCommand deprecationOptions [''stack'', ''run'']])
   \<and> isRetryable fragmentCompile (RetryableTerraformErrors retryingOptions)
         (Error (WarningError ''deprecated features used'' [deprecatedOutput]))
   \<and> DoWithRetryableErrorsE fragmentCompile (RetryableTerraformErrors retryingOptions) (Suc 1)
        (runAndCheckWarnings fragmentCompile warningShell retryingOptions
           (generateCommand retryingOptions [''stack'', ''run''])) []
       = DoWithRetryableErrorsE fragmentCompile (RetryableTerraformErrors retryingOptions) 1
           (runAndCheckWarnings fragmentCompile warningShell retryingOptions
              (generateCommand retryingOptions [''stack'', ''run'']))
           [generateCommand retryingOptions [''stack'', ''run'']]"
proof -
  let ?w = "WarningError ''deprecated features used'' [deprecatedOutput]"
  let ?c = "generateCommand deprecationOptions [''stack'', ''run'']"
  let ?c' = "generateCommand retryingOptions [''stack'', ''run'']"
  have s: "snd (warningShell [] ?c) = None" "snd (warningShell [] ?c') = None"
    and f: "fst (warningShell [] ?c) = deprecatedOutput" "fst (warningShell [] ?c') = deprecatedOutput"
    by (simp_all add: warningShell_def)
  have h: "hasWarning fragmentCompile deprecationOptions deprecatedOutput = Some ?w"
    by code_simp
  have h': "hasWarning fragmentCompile retryingOptions deprecatedOutput = Some ?w"
    by code_simp
  have n: "\<not> isRetryable fragmentCompile (RetryableTerraformErrors deprecationOptions) (Error ?w)"
    by code_simp
  have r: "isRetryable fragmentCompile (RetryableTerraformErrors retryingOptions) (Error ?w)"
    by code_simp
  show ?thesis
    using s(1) h n r
      warning_error_in_retry_loop [where sh = warningShell and executed = "[]" and cmd = "?c"
        and Compile = fragmentCompile and opts = deprecationOptions and warningErr = "?w"
        and retryableErrors = "RetryableTerraformErrors deprecationOptions" and maxRetries = 2]
      warning_error_in_retry_loop [where sh = warningShell and executed = "[]" and cmd = "?c'"
        and Compile = fragmentCompile and opts = retryingOptions and warningErr = "?w"
        and retryableErrors = "RetryableTerraformErrors retryingOptions" and maxRetries = 1]
    unfolding f using s(2) h' by simp
qed

text \<open>
  Claim C6 as stated fails: the retryable pattern \<^verbatim>\<open>deprecated features used\<close> matches the
  text of the warning error, and with two retries allowed the command is executed three
  times, on the run path (after the trial invocation) and on the output path, before the
  warning error is returned.
\<close>

theorem warning_error_is_retried:
  "map Args (snd (runTerragruntStackSubCommandE fragmentCompile warningShell plainOptions
       retryingOptions ''run'' [''plan''] []))
     = [[''-experiment'', ''stack''],
        [''-experiment'', ''stack'', ''stack'', ''run'', ''--'', ''plan''],
        [''-experiment'', ''stack'', ''stack'', ''run'', ''--'', ''plan''],
        [''-experiment'', ''stack'', ''stack'', ''run'', ''--'', ''plan'']]
   \<and> fst (runTerragruntStackSubCommandE fragmentCompile warningShell plainOptions
       retryingOptions ''run'' [''plan''] [])
     = (deprecatedOutput, Some (WarningError ''deprecated features used'' [deprecatedOutput]))
   \<and> map Args (snd (runTerragruntStackOutputCommand fragmentCompile warningShell plainOptions
       retryingOptions [''-no-color''] []))
     = [[''stack'', ''output'', ''-no-color''], [''stack'', ''output'', ''-no-color''],
        [''stack'', ''output'', ''-no-color'']]
   \<and> MaxRetries retryingOptions = 2
   \<and> isRetryable fragmentCompile (RetryableTerraformErrors retryingOptions)
         (Error (WarningError ''deprecated features used'' [deprecatedOutput]))"
  by code_simp


section \<open>The output cleaner: JSON path\<close>





end
